theory Spec2Isabelle
  imports Complex_Main "HOL-Library.Char_ord" "HOL-Library.List_Lexorder"
    "HOL-Library.Product_Lexorder" "HOL-Library.AList"
begin

section \<open>Exceptions\<close>

text \<open>
  The module defines no exception class of its own.  Every failure is either an
  \<^verbatim>\<open>assert\<close> statement of the module (an AssertionError), an error of the Python
  runtime (UnboundLocalError, AttributeError, IndexError) or an exception raised inside pandas,
  scipy or scikit-learn that the module lets through unchanged.  An exception is a value;
  \<open>exn_class\<close> is the name of its Python class.
\<close>

datatype exn =
    AssertionError string
  | ValueError string
  | KeyError string
  | UnboundLocalError string
  | AttributeError string
  | IndexError string
  | LinAlgError string

fun exn_class :: "exn \<Rightarrow> string" where
  "exn_class (AssertionError m) = ''AssertionError''"
| "exn_class (ValueError m) = ''ValueError''"
| "exn_class (KeyError m) = ''KeyError''"
| "exn_class (UnboundLocalError m) = ''UnboundLocalError''"
| "exn_class (AttributeError m) = ''AttributeError''"
| "exn_class (IndexError m) = ''IndexError''"
| "exn_class (LinAlgError m) = ''LinAlgError''"

definition raises :: "string \<Rightarrow> exn + 'a \<Rightarrow> bool" where
  "raises cls r = (case r of Inl e \<Rightarrow> exn_class e = cls | Inr v \<Rightarrow> False)"

definition returns :: "exn + 'a \<Rightarrow> bool" where
  "returns r = (case r of Inl e \<Rightarrow> False | Inr v \<Rightarrow> True)"

definition andthen :: "exn + 'a \<Rightarrow> ('a \<Rightarrow> exn + 'b) \<Rightarrow> exn + 'b" where
  "andthen r k = (case r of Inl e \<Rightarrow> Inl e | Inr v \<Rightarrow> k v)"

section \<open>Dataframes\<close>

text \<open>
  A cell is a string, an integer, a float or the missing value NaN.  A float that is a
  number is read as an exact real number: the rounding and the overflow of IEEE
  arithmetic are outside this development.  The float that is no number, NaN, is part
  of it, and so is the quotient \<open>0 / 0\<close> that produces it.  A series is the list of its
  cells; a dataframe is the ordered list of its named columns.  The dataframes handed to
  the constructor also carry the dtype of each column, which only the constructor reads.
\<close>

datatype cell = Str string | Integer int | Num real | NaN

datatype dtype = Object | Float64 | Float32 | Int32 | Int64 | UInt8 | OtherDtype string

type_synonym series = "cell list"
type_synonym frame = "(string \<times> series) list"
type_synonym typed_frame = "(string \<times> dtype \<times> series) list"

definition columns :: "(string \<times> 'a) list \<Rightarrow> string list" where
  "columns df = map fst df"

definition dtypes :: "typed_frame \<Rightarrow> dtype list" where
  "dtypes df = map (\<lambda>(c, t, xs). t) df"

definition untyped :: "typed_frame \<Rightarrow> frame" where
  "untyped df = map (\<lambda>(c, t, xs). (c, xs)) df"

text \<open>
  The names of a list in the order of their first occurrence: the order in which a loop
  over the list inserts them as keys into a dict, and the order of the columns of a
  concatenation.
\<close>

fun first_occurrences :: "'a list \<Rightarrow> 'a list" where
  "first_occurrences [] = []"
| "first_occurrences (x # xs) = x # removeAll x (first_occurrences xs)"

text \<open>\<^verbatim>\<open>df[col]\<close>: the column of that name, KeyError when there is none.\<close>

definition getitem :: "(string \<times> 'a) list \<Rightarrow> string \<Rightarrow> exn + 'a" where
  "getitem df c = (case map_of df c of None \<Rightarrow> Inl (KeyError c) | Some xs \<Rightarrow> Inr xs)"

text \<open>The first name of a list that is not a column, as pandas reports it.\<close>

definition missing_label :: "(string \<times> 'a) list \<Rightarrow> string list \<Rightarrow> string option" where
  "missing_label df cs = List.find (\<lambda>c. c \<notin> set (columns df)) cs"

subsection \<open>Conversions delegated to numpy\<close>

text \<open>
  \<^verbatim>\<open>astype(str)\<close> prints a number and \<^verbatim>\<open>astype(float)\<close> parses a string.  Printing and
  parsing are numpy's; they are parameters of the model: \<open>str_of_int\<close> is the text of an
  integer (\<^verbatim>\<open>1\<close>), \<open>str_of_float\<close> is the text of a float (\<^verbatim>\<open>1.0\<close>), \<open>float_of_str\<close>
  is the float (or NaN) a string denotes, \<open>None\<close> when the string denotes none and the
  cast raises ValueError.
\<close>

record conv =
  str_of_int :: "int \<Rightarrow> string"
  str_of_float :: "real \<Rightarrow> string"
  float_of_str :: "string \<Rightarrow> cell option"

fun cell_str :: "conv \<Rightarrow> cell \<Rightarrow> cell" where
  "cell_str K (Str s) = Str s"
| "cell_str K (Integer i) = Str (str_of_int K i)"
| "cell_str K (Num r) = Str (str_of_float K r)"
| "cell_str K NaN = Str ''nan''"

fun cell_float :: "conv \<Rightarrow> cell \<Rightarrow> cell option" where
  "cell_float K (Str s) = float_of_str K s"
| "cell_float K (Integer i) = Some (Num (real_of_int i))"
| "cell_float K (Num r) = Some (Num r)"
| "cell_float K NaN = Some NaN"

fun series_float :: "conv \<Rightarrow> series \<Rightarrow> exn + series" where
  "series_float K [] = Inr []"
| "series_float K (x # xs) =
     (case cell_float K x of
        None \<Rightarrow> Inl (ValueError ''could not convert string to float'')
      | Some y \<Rightarrow> (case series_float K xs of Inl e \<Rightarrow> Inl e | Inr ys \<Rightarrow> Inr (y # ys)))"

text \<open>
  \<^verbatim>\<open>df[cols] = df[cols].astype(str)\<close> and \<^verbatim>\<open>df[cols] = df[cols].astype(float)\<close> on
  a dataframe with dtypes.  The right-hand side is evaluated first: a name of \<open>cols\<close>
  that is no column raises KeyError, and a string that denotes no float raises
  ValueError.  The assignment then stores the converted columns one name at a time; when
  a name stands twice in \<open>cols\<close> the right-hand side has two columns of that name, and
  storing them under the one name raises ValueError.  Otherwise the named columns are
  replaced and take the dtype of the result.
\<close>

definition astype_str_cols :: "conv \<Rightarrow> string list \<Rightarrow> typed_frame \<Rightarrow> exn + typed_frame" where
  "astype_str_cols K cs df =
     (case missing_label df cs of
        Some c \<Rightarrow> Inl (KeyError c)
      | None \<Rightarrow>
          if distinct cs then
            Inr (map (\<lambda>(c, t, xs). if c \<in> set cs then (c, Object, map (cell_str K) xs)
                                   else (c, t, xs)) df)
          else Inl (ValueError ''Columns must be same length as key''))"

fun float_cols :: "conv \<Rightarrow> string list \<Rightarrow> typed_frame \<Rightarrow> exn + typed_frame" where
  "float_cols K cs [] = Inr []"
| "float_cols K cs ((c, t, xs) # df) =
     (if c \<in> set cs then
        (case series_float K xs of
           Inl e \<Rightarrow> Inl e
         | Inr ys \<Rightarrow> (case float_cols K cs df of Inl e \<Rightarrow> Inl e
                      | Inr df' \<Rightarrow> Inr ((c, Float64, ys) # df')))
      else (case float_cols K cs df of Inl e \<Rightarrow> Inl e | Inr df' \<Rightarrow> Inr ((c, t, xs) # df')))"

definition astype_float_cols :: "conv \<Rightarrow> string list \<Rightarrow> typed_frame \<Rightarrow> exn + typed_frame" where
  "astype_float_cols K cs df =
     (case missing_label df cs of
        Some c \<Rightarrow> Inl (KeyError c)
      | None \<Rightarrow>
          andthen (float_cols K cs df) (\<lambda>df'.
            if distinct cs then Inr df'
            else Inl (ValueError ''Columns must be same length as key'')))"

section \<open>The detector and its constructor\<close>

text \<open>
  The attributes \<^verbatim>\<open>__init__\<close> sets.  The attributes that \<^verbatim>\<open>compare_ml_efficacy\<close>
  adds later are in the record \<open>ml_object\<close> below.
\<close>

record detector =
  categorical_columns :: "string list"
  numeric_columns :: "string list"
  df_prior :: frame
  df_post :: frame

definition num_types :: "dtype list" where
  "num_types = [Float64, Float32, Int32, Int64, UInt8]"

text \<open>
  \<^verbatim>\<open>__init__\<close> (lines 65 to 118).  The two \<^verbatim>\<open>isinstance\<close> assertions on the
  dataframes and the two on the column lists hold by typing: a column list is a list
  or \<open>None\<close>.  \<^verbatim>\<open>df_prior.columns == df_post.columns\<close> is the elementwise comparison
  of two pandas indexes and raises ValueError when their lengths differ; otherwise the
  assertion fails when some name differs.  The dtypes are compared in the same way,
  column by column, once the names are known to agree.
\<close>

definition init :: "conv \<Rightarrow> typed_frame \<Rightarrow> typed_frame \<Rightarrow> string list option
    \<Rightarrow> string list option \<Rightarrow> exn + detector" where
  "init K prior post categorical numeric =
     (if length (columns prior) \<noteq> length (columns post) then
        Inl (ValueError ''Lengths must match to compare'')
      else if columns prior \<noteq> columns post then
        Inl (AssertionError ''df_prior and df_post should have the same column names'')
      else if dtypes prior \<noteq> dtypes post then
        Inl (AssertionError ''df_prior and df_post should have the same column types'')
      else
        let cats = (case categorical of
                      None \<Rightarrow> map fst (filter (\<lambda>(c, t, xs). t = Object) prior)
                    | Some cs \<Rightarrow> cs)
        in andthen (astype_str_cols K cats prior) (\<lambda>prior1.
           andthen (astype_str_cols K cats post) (\<lambda>post1.
             let nums = (case numeric of
                           None \<Rightarrow> map fst (filter (\<lambda>(c, t, xs). t \<in> set num_types) prior1)
                         | Some ns \<Rightarrow> ns)
             in andthen (astype_float_cols K nums prior1) (\<lambda>prior2.
                andthen (astype_float_cols K nums post1) (\<lambda>post2.
                  Inr \<lparr> categorical_columns = cats, numeric_columns = nums,
                        df_prior = untyped prior2, df_post = untyped post2 \<rparr>)))))"

section \<open>The drift engine\<close>

text \<open>A distance is a float: a number or NaN.\<close>

datatype score = Score real | NotANumber

subsection \<open>The Jensen-Shannon distance of scipy\<close>

text \<open>
  \<^verbatim>\<open>scipy.special.rel_entr(x, y)\<close> is \<open>x log (x / y)\<close> when both are positive, \<open>0\<close> when
  \<open>x = 0\<close> and \<open>y \<ge> 0\<close>, and infinite otherwise.  \<^verbatim>\<open>jensenshannon\<close> calls it with
  \<open>y\<close> the mean of \<open>x\<close> and another entry, so that on vectors without negative entries
  the infinite case does not arise; the model has no infinity and gives \<open>0\<close> there.
\<close>

definition rel_entr :: "real \<Rightarrow> real \<Rightarrow> real" where
  "rel_entr x y = (if 0 < x \<and> 0 < y then x * ln (x / y) else 0)"

text \<open>
  \<^verbatim>\<open>jensenshannon(p, q)\<close> with the natural logarithm: both vectors are divided by
  their sums, \<open>m\<close> is their mean, and the distance is the square root of half the sum of
  the two relative entropies.
\<close>

definition jensenshannon :: "real list \<Rightarrow> real list \<Rightarrow> real" where
  "jensenshannon p q =
     (let p' = map (\<lambda>x. x / sum_list p) p;
          q' = map (\<lambda>x. x / sum_list q) q;
          m = map2 (\<lambda>x y. (x + y) / 2) p' q';
          left = map2 rel_entr p' m;
          right = map2 rel_entr q' m;
          js = sum_list left + sum_list right
      in sqrt (js / 2))"

subsection \<open>Categorical columns\<close>

text \<open>
  Lines 140 to 164.  The two columns are tagged with their source and concatenated,
  \<^verbatim>\<open>groupby([col, '_source']).size()\<close> counts the rows of every observed pair of a
  category and a source (a missing value is no group key), and the pivot has one row for
  every category, in sorted order, and one column for every source that has a row.
  Dividing by the column sums and filling the gaps with \<open>0\<close> gives the share of each
  category among the observed rows of a source.  \<^verbatim>\<open>arr_['prior']\<close> raises KeyError
  when no row of the prior column was counted, and \<^verbatim>\<open>arr_['post']\<close> likewise.

  Categories are ordered through \<open>cell_key\<close>: numbers by value, strings
  lexicographically (a column is all strings after \<^verbatim>\<open>astype(str)\<close> and all floats
  after \<^verbatim>\<open>astype(float)\<close>).  A column that is itself named \<^verbatim>\<open>_source\<close> is
  overwritten by the tag, the frame is grouped by the same name twice, and
  \<^verbatim>\<open>reset_index\<close> raises ValueError.
\<close>

type_synonym category = "bool \<times> real \<times> string"

fun cell_key :: "cell \<Rightarrow> category" where
  "cell_key (Num r) = (False, r, [])"
| "cell_key (Integer i) = (False, real_of_int i, [])"
| "cell_key (Str s) = (True, 0, s)"
| "cell_key NaN = (False, 0, [])"

definition observed :: "series \<Rightarrow> category list" where
  "observed xs = map cell_key (filter (\<lambda>x. x \<noteq> NaN) xs)"

definition categories :: "series \<Rightarrow> series \<Rightarrow> category list" where
  "categories prior post = sorted_list_of_set (set (observed prior @ observed post))"

definition probabilities :: "category list \<Rightarrow> series \<Rightarrow> real list" where
  "probabilities cats xs =
     map (\<lambda>k. real (count_list (observed xs) k) / real (length (observed xs))) cats"

definition categorical_distance :: "detector \<Rightarrow> string \<Rightarrow> exn + score" where
  "categorical_distance s col =
     andthen (getitem (df_prior s) col) (\<lambda>col_prior.
     andthen (getitem (df_post s) col) (\<lambda>col_post.
       if col = ''_source'' then Inl (ValueError ''cannot insert _source, already exists'')
       else if observed col_prior = [] then Inl (KeyError ''prior'')
       else if observed col_post = [] then Inl (KeyError ''post'')
       else
         let cats = categories col_prior col_post
         in Inr (Score (jensenshannon (probabilities cats col_prior)
                                      (probabilities cats col_post)))))"

subsection \<open>Numeric columns\<close>

text \<open>
  \<^verbatim>\<open>scipy.stats.gaussian_kde\<close> is scipy's.  Its constructor rejects a dataset with
  fewer than two elements and one with a value that is not a finite float (ValueError for
  both); what it does with the values it accepts (the bandwidth, the factorisation of the
  covariance, which raises LinAlgError when the covariance is singular, and the
  density on success) is the parameter \<open>kde_fit\<close>.  The density returned is evaluated
  pointwise.
\<close>

fun cell_real :: "cell \<Rightarrow> real option" where
  "cell_real (Num r) = Some r"
| "cell_real (Integer i) = Some (real_of_int i)"
| "cell_real (Str s) = None"
| "cell_real NaN = None"

type_synonym kde = "real list \<Rightarrow> exn + (real \<Rightarrow> real)"

definition gaussian_kde :: "kde \<Rightarrow> series \<Rightarrow> exn + (real \<Rightarrow> real)" where
  "gaussian_kde kde_fit xs =
     (if length xs \<le> 1 then Inl (ValueError ''dataset input should have multiple elements'')
      else (case those (map cell_real xs) of
              None \<Rightarrow> Inl (ValueError ''array must not contain infs or NaNs'')
            | Some rs \<Rightarrow> kde_fit rs))"

text \<open>\<^verbatim>\<open>Series.min()\<close> and \<^verbatim>\<open>Series.max()\<close> skip missing values.\<close>

definition series_min :: "series \<Rightarrow> real" where
  "series_min xs = Min (set (List.map_filter cell_real xs))"

definition series_max :: "series \<Rightarrow> real" where
  "series_max xs = Max (set (List.map_filter cell_real xs))"

text \<open>\<^verbatim>\<open>np.linspace(start, stop, num)\<close>: \<open>num\<close> evenly spaced points, both ends included.\<close>

definition np_linspace :: "real \<Rightarrow> real \<Rightarrow> nat \<Rightarrow> real list" where
  "np_linspace start stop num =
     map (\<lambda>i. start + real i * ((stop - start) / real (num - 1))) [0..<num]"

definition STEPS :: nat where
  "STEPS = 100"

text \<open>
  Lines 166 to 186, for one column.  The two densities are sampled at a hundred points
  between the least and the greatest value of the column, and each sample vector is
  divided by its sum.  A density is not negative, so a sum of zero means that all
  hundred samples are \<open>0.0\<close> (an exponential underflows to \<open>0.0\<close> when the data lies far
  from every grid point); every quotient is then \<open>0 / 0\<close>, which is NaN and no error,
  and the distance of a vector of NaN is NaN.
\<close>

definition numeric_distance :: "kde \<Rightarrow> detector \<Rightarrow> string \<Rightarrow> exn + score" where
  "numeric_distance kde_fit s col =
     andthen (getitem (df_prior s) col) (\<lambda>col_prior.
     andthen (getitem (df_post s) col) (\<lambda>col_post.
     andthen (gaussian_kde kde_fit col_prior) (\<lambda>kde_prior.
     andthen (gaussian_kde kde_fit col_post) (\<lambda>kde_post.
       let min' = min (series_min col_prior) (series_min col_post);
           max' = max (series_max col_prior) (series_max col_post);
           range' = np_linspace min' max' STEPS;
           arr_prior' = map kde_prior range';
           arr_post' = map kde_post range';
           arr_prior = map (\<lambda>v. v / sum_list arr_prior') arr_prior';
           arr_post = map (\<lambda>v. v / sum_list arr_post') arr_post'
       in if sum_list arr_prior' = 0 \<or> sum_list arr_post' = 0 then Inr NotANumber
          else Inr (Score (jensenshannon arr_prior arr_post))))))"

subsection \<open>The report\<close>

text \<open>
  A Python dict keeps its keys in insertion order, and \<^verbatim>\<open>update\<close> on a key that is
  present replaces the value where it stands: an association list under
  \<open>AList.update\<close>.  The loop over the columns of one role stops at the first column
  whose distance raises.
\<close>

type_synonym scores = "(string \<times> score) list"

fun drift_loop :: "(string \<Rightarrow> exn + score) \<Rightarrow> string list \<Rightarrow> scores \<Rightarrow> exn + scores" where
  "drift_loop distance [] res = Inr res"
| "drift_loop distance (col # cols) res =
     (case distance col of
        Inl e \<Rightarrow> Inl e
      | Inr d \<Rightarrow> drift_loop distance cols (AList.update col d res))"

text \<open>
  The order of Python on floats: every comparison with NaN is false.
\<close>

fun float_lt :: "score \<Rightarrow> score \<Rightarrow> bool" where
  "float_lt (Score a) (Score b) = (a < b)"
| "float_lt (Score a) NotANumber = False"
| "float_lt NotANumber b = False"

text \<open>
  The list sort of CPython (\<^verbatim>\<open>count_run\<close> and \<^verbatim>\<open>binarysort\<close> in
  \<^verbatim>\<open>listobject.c\<close>, as of CPython 3.12) compares with \<open><\<close> only.  It takes the
  longest run at the head of the list, which is either ascending (no item is less than
  the one before it) or strictly descending (every item is less than the one before
  it) and then reversed, and inserts the remaining items one by one into the run, each
  at the place a binary search gives it.  This is the whole sort of a list of fewer than
  64 items.  A longer list is cut into runs of 32 to 64 items, each made in this way,
  and the runs are merged; the model sorts it as one run, which gives the same list
  when the order is total, as it is on scores without NaN.
\<close>

fun run_while :: "('a \<Rightarrow> 'a \<Rightarrow> bool) \<Rightarrow> 'a \<Rightarrow> 'a list \<Rightarrow> 'a list \<times> 'a list" where
  "run_while continue prev [] = ([], [])"
| "run_while continue prev (y # ys) =
     (if continue y prev then
        (case run_while continue y ys of (run, rest) \<Rightarrow> (y # run, rest))
      else ([], y # ys))"

fun count_run :: "('a \<Rightarrow> 'a \<Rightarrow> bool) \<Rightarrow> 'a list \<Rightarrow> 'a list \<times> 'a list" where
  "count_run lt [] = ([], [])"
| "count_run lt [x] = ([x], [])"
| "count_run lt (x # y # ys) =
     (if lt y x then
        (case run_while lt y ys of (run, rest) \<Rightarrow> (rev (x # y # run), rest))
      else
        (case run_while (\<lambda>a b. \<not> lt a b) y ys of (run, rest) \<Rightarrow> (x # y # run, rest)))"

function bisect :: "('a \<Rightarrow> 'a \<Rightarrow> bool) \<Rightarrow> 'a \<Rightarrow> 'a list \<Rightarrow> nat \<Rightarrow> nat \<Rightarrow> nat" where
  "bisect lt pivot run l r =
     (if l < r then
        (let p = l + (r - l) div 2
         in if lt pivot (run ! p) then bisect lt pivot run l p
            else bisect lt pivot run (p + 1) r)
      else l)"
  by pat_completeness auto
termination
  by (relation "measure (\<lambda>(lt, pivot, run, l, r). r - l)") auto

declare bisect.simps [simp del]

definition binarysort :: "('a \<Rightarrow> 'a \<Rightarrow> bool) \<Rightarrow> 'a list \<Rightarrow> 'a list \<Rightarrow> 'a list" where
  "binarysort lt run rest =
     fold (\<lambda>pivot run'.
             let l = bisect lt pivot run' 0 (length run')
             in take l run' @ pivot # drop l run') rest run"

definition list_sort :: "('a \<Rightarrow> 'a \<Rightarrow> bool) \<Rightarrow> 'a list \<Rightarrow> 'a list" where
  "list_sort lt xs = (case count_run lt xs of (run, rest) \<Rightarrow> binarysort lt run rest)"

text \<open>
  \<^verbatim>\<open>sorted(items, key=lambda x: x[1], reverse=True)\<close>: CPython reverses the list, sorts
  it in ascending order of the key and reverses the result.  Lines 190 to 193
  sort a result only when it has an entry; an empty result stays the empty dict it
  was created as.
\<close>

definition sorted_reverse :: "scores \<Rightarrow> scores" where
  "sorted_reverse items = rev (list_sort (\<lambda>x y. float_lt (snd x) (snd y)) (rev items))"

datatype ranking = Dict scores | Ranked scores

definition rank :: "scores \<Rightarrow> ranking" where
  "rank res = (if length res > 0 then Ranked (sorted_reverse res) else Dict res)"

record drift_report =
  categorical :: ranking
  numerical :: ranking

definition calculate_drift :: "kde \<Rightarrow> detector \<Rightarrow> exn + drift_report" where
  "calculate_drift kde_fit s =
     andthen (drift_loop (categorical_distance s) (categorical_columns s) []) (\<lambda>cat_res.
     andthen (drift_loop (numeric_distance kde_fit s) (numeric_columns s) []) (\<lambda>num_res.
       Inr \<lparr> categorical = rank cat_res, numerical = rank num_res \<rparr>))"

section \<open>The efficacy pipeline\<close>

subsection \<open>Dataframe operations of pandas\<close>

text \<open>
  The operations below are pandas', on dataframes whose columns all have the length of
  the frame (\<open>nrows\<close>); a dataframe without columns is taken to have no rows.
\<close>

definition nrows :: "frame \<Rightarrow> nat" where
  "nrows df = (case df of [] \<Rightarrow> 0 | (c, xs) # rest \<Rightarrow> length xs)"

text \<open>\<^verbatim>\<open>df[c] = xs\<close> replaces the column where it stands, or appends it.\<close>

definition setitem :: "frame \<Rightarrow> string \<Rightarrow> series \<Rightarrow> frame" where
  "setitem df c xs = AList.update c xs df"

text \<open>\<^verbatim>\<open>df['source'] = label\<close>: the scalar is broadcast to every row.\<close>

definition tag :: "string \<Rightarrow> frame \<Rightarrow> frame" where
  "tag label df = setitem df ''source'' (replicate (nrows df) (Str label))"

text \<open>
  \<^verbatim>\<open>pd.concat\<close> stacks the rows.  The columns of the result are the columns of the
  parts in the order of their first occurrence; a part without a column contributes
  missing values to it.
\<close>

definition column_or_nan :: "frame \<Rightarrow> string \<Rightarrow> series" where
  "column_or_nan df c = (case map_of df c of Some xs \<Rightarrow> xs | None \<Rightarrow> replicate (nrows df) NaN)"

definition pd_concat :: "frame list \<Rightarrow> frame" where
  "pd_concat dfs =
     map (\<lambda>c. (c, concat (map (\<lambda>df. column_or_nan df c) dfs)))
       (first_occurrences (concat (map columns dfs)))"

text \<open>
  \<^verbatim>\<open>pd.get_dummies(data, columns=cols)\<close>: a name of \<open>cols\<close> that is no column raises
  KeyError.  The columns that are not encoded come first, in their order; then, for
  every encoded column in the order of \<open>cols\<close>, one indicator column for each of its
  values, in sorted order and named \<^verbatim>\<open>column_value\<close>.  A missing value is no level and
  has \<open>0\<close> in every indicator.
\<close>

definition levels :: "series \<Rightarrow> cell list" where
  "levels xs = sort_key cell_key (remdups (filter (\<lambda>x. x \<noteq> NaN) xs))"

fun level_name :: "conv \<Rightarrow> cell \<Rightarrow> string" where
  "level_name K (Str s) = s"
| "level_name K (Integer i) = str_of_int K i"
| "level_name K (Num r) = str_of_float K r"
| "level_name K NaN = ''nan''"

definition dummies :: "conv \<Rightarrow> string \<Rightarrow> series \<Rightarrow> frame" where
  "dummies K c xs =
     map (\<lambda>l. (c @ ''_'' @ level_name K l, map (\<lambda>x. if x = l then Num 1 else Num 0) xs))
       (levels xs)"

definition get_dummies :: "conv \<Rightarrow> frame \<Rightarrow> string list \<Rightarrow> exn + frame" where
  "get_dummies K df cols =
     (case missing_label df cols of
        Some c \<Rightarrow> Inl (KeyError c)
      | None \<Rightarrow> Inr (filter (\<lambda>(c, xs). c \<notin> set cols) df @
                     concat (map (\<lambda>c. dummies K c (column_or_nan df c)) cols)))"

text \<open>
  \<^verbatim>\<open>df[df.source == label].drop('source', axis=1)\<close>: the rows whose tag is the label,
  without the tag.  \<^verbatim>\<open>df.source\<close> raises AttributeError when there is no such column.
\<close>

definition filter_rows :: "bool list \<Rightarrow> series \<Rightarrow> series" where
  "filter_rows keep xs = map snd (filter fst (zip keep xs))"

definition drop_column :: "frame \<Rightarrow> string \<Rightarrow> exn + frame" where
  "drop_column df c =
     (if c \<in> set (columns df) then Inr (filter (\<lambda>(c', xs). c' \<noteq> c) df)
      else Inl (KeyError c))"

definition rows_from :: "frame \<Rightarrow> string \<Rightarrow> exn + frame" where
  "rows_from df label =
     (case map_of df ''source'' of
        None \<Rightarrow> Inl (AttributeError ''source'')
      | Some src \<Rightarrow>
          drop_column (map (\<lambda>(c, xs). (c, filter_rows (map (\<lambda>v. v = Str label) src) xs)) df)
            ''source'')"

text \<open>
  \<^verbatim>\<open>df[cols]\<close> with a list of names, and \<^verbatim>\<open>df[cols] = value\<close> with a dataframe:
  the columns of the value are assigned to the names by position, and their number
  must be the number of names.
\<close>

definition select_columns :: "frame \<Rightarrow> string list \<Rightarrow> exn + frame" where
  "select_columns df cols =
     (case missing_label df cols of
        Some c \<Rightarrow> Inl (KeyError c)
      | None \<Rightarrow> Inr (map (\<lambda>c. (c, column_or_nan df c)) cols))"

definition setitem_columns :: "frame \<Rightarrow> string list \<Rightarrow> frame \<Rightarrow> exn + frame" where
  "setitem_columns df cols val =
     (if length val \<noteq> length cols then Inl (ValueError ''Columns must be same length as key'')
      else Inr (fold (\<lambda>(c, (c', xs)) df'. setitem df' c xs) (zip cols val) df))"

text \<open>\<^verbatim>\<open>astype(float)\<close> on the columns that satisfy \<open>p\<close>.\<close>

fun cast_float :: "conv \<Rightarrow> (string \<Rightarrow> bool) \<Rightarrow> frame \<Rightarrow> exn + frame" where
  "cast_float K p [] = Inr []"
| "cast_float K p ((c, xs) # df) =
     (if p c then
        (case series_float K xs of
           Inl e \<Rightarrow> Inl e
         | Inr ys \<Rightarrow> (case cast_float K p df of Inl e \<Rightarrow> Inl e | Inr df' \<Rightarrow> Inr ((c, ys) # df')))
      else (case cast_float K p df of Inl e \<Rightarrow> Inl e | Inr df' \<Rightarrow> Inr ((c, xs) # df')))"

definition frame_float :: "conv \<Rightarrow> frame \<Rightarrow> exn + frame" where
  "frame_float K df = cast_float K (\<lambda>c. True) df"

text \<open>
  Rows by position (\<^verbatim>\<open>iloc\<close>).  \<^verbatim>\<open>int(x)\<close> truncates towards zero, and a negative bound
  of a slice counts from the end.
\<close>

definition take_rows :: "nat list \<Rightarrow> frame \<Rightarrow> exn + frame" where
  "take_rows idx df =
     (if list_all (\<lambda>i. i < nrows df) idx
      then Inr (map (\<lambda>(c, xs). (c, map (\<lambda>i. xs ! i) idx)) df)
      else Inl (IndexError ''positional indexers are out-of-bounds''))"

definition py_int :: "real \<Rightarrow> int" where
  "py_int x = (if 0 \<le> x then \<lfloor>x\<rfloor> else \<lceil>x\<rceil>)"

definition slice_bound :: "nat \<Rightarrow> int \<Rightarrow> nat" where
  "slice_bound n k = (if k < 0 then nat (max 0 (int n + k)) else min n (nat k))"

definition iloc_to :: "frame \<Rightarrow> int \<Rightarrow> frame" where
  "iloc_to df k = map (\<lambda>(c, xs). (c, take (slice_bound (nrows df) k) xs)) df"

definition iloc_from :: "frame \<Rightarrow> int \<Rightarrow> frame" where
  "iloc_from df k = map (\<lambda>(c, xs). (c, drop (slice_bound (nrows df) k) xs)) df"

text \<open>\<^verbatim>\<open>nunique()\<close> counts the distinct values of a column that are not missing.\<close>

definition nunique :: "series \<Rightarrow> nat" where
  "nunique xs = length (remdups (filter (\<lambda>x. x \<noteq> NaN) xs))"

subsection \<open>The state of a comparison\<close>

text \<open>
  The attributes \<^verbatim>\<open>compare_ml_efficacy\<close> sets when it starts, and that the methods it
  calls read during the same call.
\<close>

record settings =
  target_column :: string
  train_size :: real
  random_state :: "int option"
  cv :: nat
  n_iter :: nat
  param_grid :: "(string \<times> real list) list"
  OHE_columns :: "string list"
  high_cardinality_columns :: "string list"
  test_data :: "frame option"

text \<open>The seven attributes that \<^verbatim>\<open>_ml_data_prep\<close> sets (lines 618 to 624).\<close>

record prepared =
  X_train_prior :: frame
  y_train_prior :: series
  X_test_prior :: frame
  y_test :: series
  X_train_post :: frame
  y_train_post :: series
  X_test_post :: frame

text \<open>
  A report is a table: each row has its index (the class and the lineage, or the lineage
  alone) and its named values; a value is a float or the string \<^verbatim>\<open>NA\<close>.
\<close>

type_synonym report = "(string list \<times> (string \<times> cell) list) list"

text \<open>
  The detector with the attributes that outlive a call: the prepared matrices, the two
  fitted models and the last report.  Each is absent until it is first assigned.
\<close>

record 'm ml_object =
  core :: detector
  prep :: "prepared option"
  models :: "('m \<times> 'm) option"
  ml_report :: "report option"

subsection \<open>The libraries\<close>

text \<open>
  What numpy, category_encoders and scikit-learn compute is a parameter of the model.
  \<open>'g\<close> is the state of numpy's global random generator, \<open>'e\<close> a fitted encoder and
  \<open>'m\<close> a fitted model.
  \<^item> \<open>float_times\<close>: the product of two floats, rounded to the nearest float as the
    processor rounds it (\<^verbatim>\<open>100 * 0.29\<close> is \<^verbatim>\<open>28.999999999999996\<close>);
  \<^item> \<open>random_permutation\<close>: \<^verbatim>\<open>sklearn.utils.shuffle\<close> without a \<^verbatim>\<open>random_state\<close> draws
    the order of the rows from the global generator and advances it;
  \<^item> \<open>encoder_fit\<close> and \<open>encoder_transform\<close>: \<^verbatim>\<open>CatBoostEncoder(cols, random_state)\<close>,
    its \<^verbatim>\<open>fit\<close> and its \<^verbatim>\<open>transform\<close>; \<^verbatim>\<open>fit_transform(X, y)\<close> is
    \<^verbatim>\<open>fit(X, y).transform(X, y)\<close>;
  \<^item> \<open>search_fit\<close>: a \<^verbatim>\<open>RandomizedSearchCV\<close> over a random forest, fitted; it draws
    from the global generator when no \<^verbatim>\<open>random_state\<close> is given;
  \<^item> \<open>predict\<close> and the metric functions of \<^verbatim>\<open>sklearn.metrics\<close>.
\<close>

datatype estimator = RandomForestRegressor | RandomForestClassifier

record ('g, 'e, 'm) extern =
  np_conv :: conv
  float_times :: "real \<Rightarrow> real \<Rightarrow> real"
  random_permutation :: "'g \<Rightarrow> nat \<Rightarrow> nat list \<times> 'g"
  encoder_fit :: "int option \<Rightarrow> string list \<Rightarrow> frame \<Rightarrow> series \<Rightarrow> exn + 'e"
  encoder_transform :: "'e \<Rightarrow> frame \<Rightarrow> series \<Rightarrow> exn + frame"
  search_fit :: "estimator \<Rightarrow> settings \<Rightarrow> 'g \<Rightarrow> frame \<Rightarrow> series \<Rightarrow> exn + ('m \<times> 'g)"
  predict :: "'m \<Rightarrow> frame \<Rightarrow> exn + real list"
  mean_absolute_error :: "series \<Rightarrow> real list \<Rightarrow> exn + real"
  r2_score :: "series \<Rightarrow> real list \<Rightarrow> exn + real"
  precision_score :: "series \<Rightarrow> series \<Rightarrow> exn + real"
  recall_score :: "series \<Rightarrow> series \<Rightarrow> exn + real"
  accuracy_score :: "series \<Rightarrow> series \<Rightarrow> exn + real"
  f1_score :: "series \<Rightarrow> series \<Rightarrow> exn + real"
  roc_auc_score :: "series \<Rightarrow> series \<Rightarrow> exn + real"

subsection \<open>Data preparation\<close>

text \<open>
  \<^verbatim>\<open>_ml_data_prep\<close>, lines 538 to 558: the three partitions.  Without test data the
  post dataset is shuffled, by \<^verbatim>\<open>shuffle(df_post)\<close> with no seed, and split at
  \<^verbatim>\<open>int(len(df_post) * train_size)\<close>, the rounded product truncated.  The result is
  the prior training rows, the test rows, the post training rows and the state of the
  generator.
\<close>

definition partitions :: "('g, 'e, 'm) extern \<Rightarrow> settings \<Rightarrow> detector \<Rightarrow> 'g
    \<Rightarrow> exn + (frame \<times> frame \<times> frame \<times> 'g)" where
  "partitions L cfg s g =
     (case test_data cfg of
        None \<Rightarrow>
          (case random_permutation L g (nrows (df_post s)) of (perm, g') \<Rightarrow>
             andthen (take_rows perm (df_post s)) (\<lambda>shuffled.
               let n_split = py_int (float_times L (real (nrows shuffled)) (train_size cfg))
               in Inr (df_prior s, iloc_from shuffled n_split, iloc_to shuffled n_split, g')))
      | Some td \<Rightarrow> Inr (df_prior s, td, df_post s, g))"

text \<open>
  Lines 587 to 607, for one lineage: an encoder is fitted on the training rows of the
  lineage and their target, and applied to these rows and to the test rows.
\<close>

definition encode_lineage :: "('g, 'e, 'm) extern \<Rightarrow> settings \<Rightarrow> string list \<Rightarrow> frame \<Rightarrow> frame
    \<Rightarrow> exn + (frame \<times> frame)" where
  "encode_lineage L cfg hc train test =
     andthen (select_columns train hc) (\<lambda>train_hc.
     andthen (getitem train (target_column cfg)) (\<lambda>train_y.
     andthen (encoder_fit L (random_state cfg) hc train_hc train_y) (\<lambda>tf.
     andthen (encoder_transform L tf train_hc train_y) (\<lambda>train_enc.
     andthen (setitem_columns train hc train_enc) (\<lambda>train'.
     andthen (select_columns test hc) (\<lambda>test_hc.
     andthen (getitem test (target_column cfg)) (\<lambda>test_y.
     andthen (encoder_transform L tf test_hc test_y) (\<lambda>test_enc.
     andthen (setitem_columns test hc test_enc) (\<lambda>test'.
       Inr (train', test'))))))))))"

text \<open>\<^verbatim>\<open>df.drop(target, axis=1).astype(float)\<close> and \<^verbatim>\<open>df[target].astype(float)\<close>.\<close>

definition features :: "conv \<Rightarrow> string \<Rightarrow> frame \<Rightarrow> exn + frame" where
  "features K target df = andthen (drop_column df target) (frame_float K)"

definition labels :: "conv \<Rightarrow> string \<Rightarrow> frame \<Rightarrow> exn + series" where
  "labels K target df = andthen (getitem df target) (series_float K)"

text \<open>
  Lines 560 to 616: the target is taken out of both encoding lists, the partitions are
  tagged, concatenated, one-hot encoded together and separated again by their tag; the
  high-cardinality columns are encoded per lineage; features and labels are cast.
\<close>

definition encode_partitions :: "('g, 'e, 'm) extern \<Rightarrow> settings \<Rightarrow> frame \<Rightarrow> frame \<Rightarrow> frame
    \<Rightarrow> exn + prepared" where
  "encode_partitions L cfg train_prior0 test0 train_post0 =
     (let ohe = filter (\<lambda>col. col \<noteq> target_column cfg) (OHE_columns cfg);
          hc = filter (\<lambda>col. col \<noteq> target_column cfg) (high_cardinality_columns cfg);
          K = np_conv L;
          target = target_column cfg;
          df0 = pd_concat [tag ''Train Prior'' train_prior0, tag ''Test'' test0,
                           tag ''Train Post'' train_post0]
      in andthen (get_dummies K df0 ohe) (\<lambda>df.
         andthen (rows_from df ''Train Prior'') (\<lambda>train_prior1.
         andthen (rows_from df ''Test'') (\<lambda>test.
         andthen (rows_from df ''Train Post'') (\<lambda>train_post1.
         andthen (encode_lineage L cfg hc train_prior1 test) (\<lambda>(train_prior, test_prior).
         andthen (encode_lineage L cfg hc train_post1 test) (\<lambda>(train_post, test_post).
         andthen (features K target train_prior) (\<lambda>X_train_prior'.
         andthen (labels K target train_prior) (\<lambda>y_train_prior'.
         andthen (features K target test_prior) (\<lambda>X_test_prior'.
         andthen (labels K target test) (\<lambda>y_test'.
         andthen (features K target train_post) (\<lambda>X_train_post'.
         andthen (labels K target train_post) (\<lambda>y_train_post'.
         andthen (features K target test_post) (\<lambda>X_test_post'.
           Inr \<lparr> X_train_prior = X_train_prior', y_train_prior = y_train_prior',
                 X_test_prior = X_test_prior', y_test = y_test',
                 X_train_post = X_train_post', y_train_post = y_train_post',
                 X_test_post = X_test_post' \<rparr>))))))))))))))"

text \<open>
  \<^verbatim>\<open>_ml_data_prep\<close>: the attributes are assigned at its end, so a failure leaves the
  object as it was.  The result is paired with the state of the generator.
\<close>

definition ml_data_prep :: "('g, 'e, 'm) extern \<Rightarrow> settings \<Rightarrow> 'm ml_object \<Rightarrow> 'g
    \<Rightarrow> (exn + 'm ml_object) \<times> 'g" where
  "ml_data_prep L cfg self g =
     (case partitions L cfg (core self) g of
        Inl e \<Rightarrow> (Inl e, g)
      | Inr (train_prior, test, train_post, g') \<Rightarrow>
          (case encode_partitions L cfg train_prior test train_post of
             Inl e \<Rightarrow> (Inl e, g')
           | Inr p \<Rightarrow> (Inr (self \<lparr> prep := Some p \<rparr>), g')))"

subsection \<open>Model fitting\<close>

text \<open>
  \<^verbatim>\<open>_build_regressor\<close> and \<^verbatim>\<open>_build_classifier\<close> differ in the estimator only: two
  searches with the same settings are fitted, the prior one first, and both are stored
  at the end.  An attribute that was never assigned raises AttributeError.
\<close>

definition build_model :: "('g, 'e, 'm) extern \<Rightarrow> estimator \<Rightarrow> settings \<Rightarrow> 'm ml_object \<Rightarrow> 'g
    \<Rightarrow> (exn + 'm ml_object) \<times> 'g" where
  "build_model L est cfg self g =
     (case prep self of
        None \<Rightarrow> (Inl (AttributeError ''X_train_prior''), g)
      | Some p \<Rightarrow>
          (case search_fit L est cfg g (X_train_prior p) (y_train_prior p) of
             Inl e \<Rightarrow> (Inl e, g)
           | Inr (model_prior, g1) \<Rightarrow>
               (case search_fit L est cfg g1 (X_train_post p) (y_train_post p) of
                  Inl e \<Rightarrow> (Inl e, g1)
                | Inr (model_post, g2) \<Rightarrow>
                    (Inr (self \<lparr> models := Some (model_prior, model_post) \<rparr>), g2))))"

definition build_regressor :: "('g, 'e, 'm) extern \<Rightarrow> settings \<Rightarrow> 'm ml_object \<Rightarrow> 'g
    \<Rightarrow> (exn + 'm ml_object) \<times> 'g" where
  "build_regressor L cfg self g = build_model L RandomForestRegressor cfg self g"

definition build_classifier :: "('g, 'e, 'm) extern \<Rightarrow> settings \<Rightarrow> 'm ml_object \<Rightarrow> 'g
    \<Rightarrow> (exn + 'm ml_object) \<times> 'g" where
  "build_classifier L cfg self g = build_model L RandomForestClassifier cfg self g"

subsection \<open>Evaluation of a regression\<close>

text \<open>
  \<^verbatim>\<open>_rmse\<close> (line 402): the root of the mean squared difference.  The predictions are
  an array and the targets a series of floats, so their difference is a series: an array
  of one prediction is broadcast to every target, and arrays of any other different
  length raise ValueError.  The difference is missing where the target is, and
  \<^verbatim>\<open>np.mean\<close> of a series skips the missing values; the mean of no value is NaN.
\<close>

definition rmse :: "series \<Rightarrow> real list \<Rightarrow> exn + cell" where
  "rmse targets predictions =
     (if length predictions \<noteq> length targets \<and> length predictions \<noteq> 1
      then Inl (ValueError ''operands could not be broadcast together'')
      else
        let ps = (if length predictions = length targets then predictions
                  else replicate (length targets) (hd predictions));
            squares = List.map_filter
                        (\<lambda>(p, t). map_option (\<lambda>t'. (p - t')\<^sup>2) (cell_real t)) (zip ps targets)
        in if squares = [] then Inr NaN
           else Inr (Num (sqrt (sum_list squares / real (length squares)))))"

text \<open>The models and matrices stored on the object, AttributeError when absent.\<close>

definition fitted :: "'m ml_object \<Rightarrow> exn + (('m \<times> 'm) \<times> prepared)" where
  "fitted self =
     (case models self of
        None \<Rightarrow> Inl (AttributeError ''model_prior'')
      | Some ms \<Rightarrow> (case prep self of
                     None \<Rightarrow> Inl (AttributeError ''X_test_prior'')
                   | Some p \<Rightarrow> Inr (ms, p)))"

text \<open>\<^verbatim>\<open>_eval_regressor\<close> (lines 695 to 721).\<close>

definition eval_regressor :: "('g, 'e, 'm) extern \<Rightarrow> 'm ml_object \<Rightarrow> exn + 'm ml_object" where
  "eval_regressor L self =
     andthen (fitted self) (\<lambda>((model_prior, model_post), p).
     andthen (predict L model_prior (X_test_prior p)) (\<lambda>y_pred_prior.
     andthen (predict L model_post (X_test_post p)) (\<lambda>y_pred_post.
     andthen (rmse (y_test p) y_pred_prior) (\<lambda>rmse_prior.
     andthen (mean_absolute_error L (y_test p) y_pred_prior) (\<lambda>mae_prior.
     andthen (r2_score L (y_test p) y_pred_prior) (\<lambda>r2_prior.
     andthen (rmse (y_test p) y_pred_post) (\<lambda>rmse_post.
     andthen (mean_absolute_error L (y_test p) y_pred_post) (\<lambda>mae_post.
     andthen (r2_score L (y_test p) y_pred_post) (\<lambda>r2_post.
       Inr (self \<lparr> ml_report := Some
         [([''Prior''], [(''RMSE'', rmse_prior), (''MAE'', Num mae_prior), (''R2'', Num r2_prior)]),
          ([''Post''], [(''RMSE'', rmse_post), (''MAE'', Num mae_post), (''R2'', Num r2_post)])]
         \<rparr>))))))))))"

subsection \<open>Evaluation of a classification\<close>

text \<open>
  A local variable of a Python function is unbound until an assignment binds it, and
  reading it before raises UnboundLocalError.
\<close>

definition load_local :: "string \<Rightarrow> 'a option \<Rightarrow> exn + 'a" where
  "load_local name v =
     (case v of
        None \<Rightarrow> Inl (UnboundLocalError name)
      | Some x \<Rightarrow> Inr x)"

text \<open>
  \<^verbatim>\<open>pd.DataFrame(array, columns=cols)\<close> of a one-dimensional array needs exactly one
  column name.
\<close>

definition frame_of_array :: "real list \<Rightarrow> string list \<Rightarrow> exn + frame" where
  "frame_of_array xs cols =
     (case cols of
        [c] \<Rightarrow> Inr [(c, map Num xs)]
      | _ \<Rightarrow> Inl (ValueError ''Shape of passed values does not match the columns''))"

text \<open>
  The scores of class \<open>i\<close> (lines 766 to 798): the \<open>i\<close>-th indicator column of the truth
  against the one of each prediction.  \<^verbatim>\<open>roc_auc_score\<close> alone is guarded: its
  ValueError becomes the string \<^verbatim>\<open>NA\<close>.  The two rows are indexed by the name of the
  indicator column and the lineage.
\<close>

definition auc_or_na :: "exn + real \<Rightarrow> exn + cell" where
  "auc_or_na r =
     (case r of
        Inl (ValueError m) \<Rightarrow> Inr (Str ''NA'')
      | Inl e \<Rightarrow> Inl e
      | Inr v \<Rightarrow> Inr (Num v))"

definition lineage_scores :: "('g, 'e, 'm) extern \<Rightarrow> series \<Rightarrow> series
    \<Rightarrow> exn + (real \<times> real \<times> real \<times> real \<times> cell)" where
  "lineage_scores L truth pred =
     andthen (precision_score L truth pred) (\<lambda>precision.
     andthen (recall_score L truth pred) (\<lambda>recall.
     andthen (accuracy_score L truth pred) (\<lambda>acc.
     andthen (f1_score L truth pred) (\<lambda>f1.
     andthen (auc_or_na (roc_auc_score L truth pred)) (\<lambda>auc.
       Inr (precision, recall, acc, f1, auc))))))"

definition score_row :: "string \<Rightarrow> string \<Rightarrow> (real \<times> real \<times> real \<times> real \<times> cell)
    \<Rightarrow> string list \<times> (string \<times> cell) list" where
  "score_row label lineage sc =
     (case sc of (precision, recall, acc, f1, auc) \<Rightarrow>
        ([label, lineage],
         [(''Accuracy'', Num acc), (''Precision'', Num precision), (''Recall'', Num recall),
          (''F1'', Num f1), (''AUC'', auc)]))"

definition class_scores :: "('g, 'e, 'm) extern \<Rightarrow> frame \<Rightarrow> frame \<Rightarrow> frame \<Rightarrow> nat \<Rightarrow> exn + report" where
  "class_scores L truth prior post i =
     (if i < length truth \<and> i < length prior \<and> i < length post then
        andthen (lineage_scores L (snd (truth ! i)) (snd (prior ! i))) (\<lambda>sc_prior.
        andthen (lineage_scores L (snd (truth ! i)) (snd (post ! i))) (\<lambda>sc_post.
          Inr [score_row (fst (truth ! i)) ''Prior'' sc_prior,
               score_row (fst (truth ! i)) ''Post'' sc_post]))
      else Inl (IndexError ''index is out of bounds''))"

fun score_loop :: "('g, 'e, 'm) extern \<Rightarrow> frame \<Rightarrow> frame \<Rightarrow> frame \<Rightarrow> nat list \<Rightarrow> report
    \<Rightarrow> exn + report" where
  "score_loop L truth prior post [] res = Inr res"
| "score_loop L truth prior post (i # iters) res =
     (case class_scores L truth prior post i of
        Inl e \<Rightarrow> Inl e
      | Inr score \<Rightarrow> score_loop L truth prior post iters (res @ score))"

text \<open>
  Lines 736 to 749, from the first use of \<^verbatim>\<open>y_test\<close> on, with a value for it.  The
  predictions take the column names of \<^verbatim>\<open>y_test\<close>; the three frames are tagged,
  concatenated and one-hot encoded together on every column but the tag, and separated
  again: the indicator columns of the two predictions and of the truth.
\<close>

definition one_hot_labels :: "('g, 'e, 'm) extern \<Rightarrow> real list \<Rightarrow> real list \<Rightarrow> frame
    \<Rightarrow> exn + (frame \<times> frame \<times> frame)" where
  "one_hot_labels L pred_prior pred_post y_test0 =
     andthen (frame_of_array pred_prior (columns y_test0)) (\<lambda>y_pred_prior0.
     andthen (frame_of_array pred_post (columns y_test0)) (\<lambda>y_pred_post0.
       let y0 = pd_concat [tag ''prior'' y_pred_prior0, tag ''post'' y_pred_post0,
                           tag ''test'' y_test0];
           cols = filter (\<lambda>col. col \<noteq> ''source'') (columns y0)
       in andthen (get_dummies (np_conv L) y0 cols) (\<lambda>y.
          andthen (rows_from y ''prior'') (\<lambda>y_pred_prior.
          andthen (rows_from y ''post'') (\<lambda>y_pred_post.
          andthen (rows_from y ''test'') (\<lambda>y_test1.
            Inr (y_pred_prior, y_pred_post, y_test1)))))))"

text \<open>
  Lines 751 to 802.  \<^verbatim>\<open>y_test[0]\<close> is the first row of the truth and raises IndexError
  when the truth has no row; its length is the number of classes.  With exactly two
  classes only the class at position \<open>1\<close> is scored, otherwise every class.
\<close>

definition score_classes :: "('g, 'e, 'm) extern \<Rightarrow> real list \<Rightarrow> real list \<Rightarrow> frame \<Rightarrow> exn + report" where
  "score_classes L pred_prior pred_post y_test0 =
     andthen (one_hot_labels L pred_prior pred_post y_test0) (\<lambda>(y_pred_prior, y_pred_post, y_test1).
       if nrows y_test0 = 0 then Inl (IndexError ''index 0 is out of bounds'')
       else
         let iters = (if length y_test1 = 2 then [1] else [0..<length y_test1])
         in score_loop L y_test1 y_pred_prior y_pred_post iters [])"

text \<open>
  \<^verbatim>\<open>_eval_classifier\<close> (lines 724 to 802).  The name \<^verbatim>\<open>y_test\<close> is assigned in the
  body (line 749), so it is a local variable of the function; nothing binds it before
  line 736 reads \<^verbatim>\<open>y_test.columns\<close> (line 735 binds \<^verbatim>\<open>y_test_\<close>, a different name,
  here \<open>y_test'\<close>, which nothing reads).
\<close>

definition eval_classifier :: "('g, 'e, 'm) extern \<Rightarrow> settings \<Rightarrow> 'm ml_object
    \<Rightarrow> exn + 'm ml_object" where
  "eval_classifier L cfg self =
     andthen (fitted self) (\<lambda>((model_prior, model_post), p).
     andthen (predict L model_prior (X_test_prior p)) (\<lambda>y_pred_prior.
     andthen (predict L model_post (X_test_post p)) (\<lambda>y_pred_post.
       let y_test' = [(target_column cfg, y_test p)];
           y_test_local = (None :: frame option)
       in andthen (load_local ''y_test'' y_test_local) (\<lambda>y_test0.
          andthen (score_classes L y_pred_prior y_pred_post y_test0) (\<lambda>res.
            Inr (self \<lparr> ml_report := Some res \<rparr>))))))"

subsection \<open>The comparison\<close>

text \<open>The arguments of \<^verbatim>\<open>compare_ml_efficacy\<close>; an optional argument is \<open>None\<close> by default.\<close>

record efficacy_args =
  arg_target_column :: string
  arg_test_data :: "typed_frame option"
  arg_OHE_columns :: "string list option"
  arg_high_cardinality_columns :: "string list option"
  OHE_columns_cutoff :: int
  arg_random_state :: "int option"
  arg_train_size :: real
  arg_cv :: nat
  arg_n_iter :: nat
  arg_param_grid :: "(string \<times> real list) list"

text \<open>\<^verbatim>\<open>return self.ml_report\<close>: AttributeError when no call has stored a report yet.\<close>

definition stored_report :: "'m ml_object \<Rightarrow> exn + report" where
  "stored_report self =
     (case ml_report self of
        None \<Rightarrow> Inl (AttributeError ''ml_report'')
      | Some r \<Rightarrow> Inr r)"

text \<open>Lines 491 to 514: the encoding lists when not given, and the casts of the test data.\<close>

definition default_columns :: "detector \<Rightarrow> (nat \<Rightarrow> bool) \<Rightarrow> string list" where
  "default_columns s chosen =
     map fst (filter (\<lambda>(col, xs). chosen (nunique xs) \<and> col \<in> set (categorical_columns s))
                (df_prior s))"

definition cast_test_data :: "conv \<Rightarrow> detector \<Rightarrow> typed_frame option \<Rightarrow> exn + frame option" where
  "cast_test_data K s td =
     (case td of
        None \<Rightarrow> Inr None
      | Some df \<Rightarrow>
          andthen (astype_float_cols K (numeric_columns s) df) (\<lambda>df1.
          andthen (astype_str_cols K (categorical_columns s) df1) (\<lambda>df2.
            Inr (Some (untyped df2)))))"

definition make_settings :: "detector \<Rightarrow> efficacy_args \<Rightarrow> frame option \<Rightarrow> settings" where
  "make_settings s a td =
     \<lparr> target_column = arg_target_column a,
       train_size = arg_train_size a,
       random_state = arg_random_state a,
       cv = arg_cv a,
       n_iter = arg_n_iter a,
       param_grid = arg_param_grid a,
       OHE_columns = (case arg_OHE_columns a of
                        None \<Rightarrow> default_columns s (\<lambda>n. int n \<le> OHE_columns_cutoff a)
                      | Some cols \<Rightarrow> cols),
       high_cardinality_columns = (case arg_high_cardinality_columns a of
                        None \<Rightarrow> default_columns s (\<lambda>n. int n > OHE_columns_cutoff a)
                      | Some cols \<Rightarrow> cols),
       test_data = td \<rparr>"

text \<open>
  \<^verbatim>\<open>compare_ml_efficacy\<close> (lines 406 to 528).  The assertions on the types of the
  arguments hold by typing.  The result is what the call returns or raises, the object
  afterwards and the state of the generator.  After the data preparation a model is
  built and evaluated when the target is a categorical column, else when it is a
  numeric column; then \<^verbatim>\<open>self.ml_report\<close> is returned, whatever the branch.
\<close>

definition compare_ml_efficacy :: "('g, 'e, 'm) extern \<Rightarrow> 'm ml_object \<Rightarrow> 'g \<Rightarrow> efficacy_args
    \<Rightarrow> (exn + report) \<times> 'm ml_object \<times> 'g" where
  "compare_ml_efficacy L self g a =
     (if arg_target_column a \<notin> set (columns (df_prior (core self))) then
        (Inl (AssertionError ''target_column does not exist in df_prior''), self, g)
      else
        (case cast_test_data (np_conv L) (core self) (arg_test_data a) of
           Inl e \<Rightarrow> (Inl e, self, g)
         | Inr td \<Rightarrow>
             let cfg = make_settings (core self) a td in
             (case ml_data_prep L cfg self g of
                (Inl e, g1) \<Rightarrow> (Inl e, self, g1)
              | (Inr self1, g1) \<Rightarrow>
                  if arg_target_column a \<in> set (categorical_columns (core self)) then
                    (case build_classifier L cfg self1 g1 of
                       (Inl e, g2) \<Rightarrow> (Inl e, self1, g2)
                     | (Inr self2, g2) \<Rightarrow>
                         (case eval_classifier L cfg self2 of
                            Inl e \<Rightarrow> (Inl e, self2, g2)
                          | Inr self3 \<Rightarrow> (stored_report self3, self3, g2)))
                  else if arg_target_column a \<in> set (numeric_columns (core self)) then
                    (case build_regressor L cfg self1 g1 of
                       (Inl e, g2) \<Rightarrow> (Inl e, self1, g2)
                     | (Inr self2, g2) \<Rightarrow>
                         (case eval_regressor L self2 of
                            Inl e \<Rightarrow> (Inl e, self2, g2)
                          | Inr self3 \<Rightarrow> (stored_report self3, self3, g2)))
                  else (stored_report self1, self1, g1))))"

section \<open>Vocabulary of the drift properties\<close>

text \<open>The entries of the result of one role, whether it is a dict or a list.\<close>

fun entries :: "ranking \<Rightarrow> scores" where
  "entries (Dict l) = l"
| "entries (Ranked l) = l"

text \<open>The detector built from the same two datasets in the other order.\<close>

definition swapped :: "detector \<Rightarrow> detector" where
  "swapped s = s \<lparr> df_prior := df_post s, df_post := df_prior s \<rparr>"




section \<open>Vocabulary of the efficacy properties\<close>

text \<open>A dataframe is rectangular when every column has the length of the frame.\<close>

definition frame_ok :: "frame \<Rightarrow> bool" where
  "frame_ok df = list_all (\<lambda>(c, xs). length xs = nrows df) df"

text \<open>The dataframe with other values in the column \<open>t\<close>.\<close>

definition with_target :: "string \<Rightarrow> series \<Rightarrow> frame \<Rightarrow> frame" where
  "with_target t ys df = map (\<lambda>(c, xs). (c, if c = t then ys else xs)) df"

text \<open>The four feature matrices have the same column names in the same order.\<close>

definition aligned :: "prepared \<Rightarrow> bool" where
  "aligned p = (columns (X_test_prior p) = columns (X_train_prior p) \<and>
               columns (X_train_post p) = columns (X_train_prior p) \<and>
               columns (X_test_post p) = columns (X_train_prior p))"

section \<open>Concrete inputs\<close>

text \<open>
  A small conversion table standing for numpy's printing and parsing, for the examples.
\<close>

definition conv0 :: conv where
  "conv0 = \<lparr> str_of_int = (\<lambda>i. if i = 0 then ''0'' else if i = 1 then ''1'' else ''2''),
             str_of_float = (\<lambda>r. if r = 0 then ''0.0'' else if r = 1 then ''1.0'' else ''2.0''),
             float_of_str = (\<lambda>s. if s = ''0'' \<or> s = ''0.0'' then Some (Num 0)
                                 else if s = ''1'' \<or> s = ''1.0'' then Some (Num 1)
                                 else if s = ''2'' \<or> s = ''2.0'' then Some (Num 2)
                                 else if s = ''nan'' then Some NaN else None) \<rparr>"

definition frame_a :: typed_frame where
  "frame_a = [(''city'', Object, [Str ''x'', Str ''y'']), (''age'', Int64, [Integer 1, Integer 2])]"

definition frame_b :: typed_frame where
  "frame_b = [(''town'', Object, [Str ''x'', Str ''y'']), (''age'', Int64, [Integer 1, Integer 2])]"

definition frame_c :: typed_frame where
  "frame_c = [(''city'', Object, [Str ''x'', Str ''y''])]"

text \<open>
  A stand-in for scipy's Gaussian kernel density estimate with its default bandwidth
  (Scott's rule): the variance of the data scaled by \<open>n\<close> to the power \<open>-1/5\<close>, squared.
  A variance that is not positive makes the factorisation of the covariance fail with
  LinAlgError.  Two effects of double precision are part of the stand-in.
  \<^item> The exponential of a number below \<open>-746\<close> is \<open>0.0\<close>: the least positive double is
    about \<open>exp (-744.4)\<close>.
  \<^item> The variance that numpy computes differs from the sample variance by a rounding
    error, the first argument of \<open>scott\<close>.  The error is \<open>0\<close> on data such as
    \<^verbatim>\<open>[1.0, 1.0]\<close>, whose mean and deviations are exact; it is positive on five times
    \<^verbatim>\<open>0.1\<close>, whose computed variance is about \<open>2.4e-34\<close> although all values are equal.
\<close>

definition float_exp :: "real \<Rightarrow> real" where
  "float_exp z = (if z < - 746 then 0 else exp z)"

definition sample_variance :: "real list \<Rightarrow> real" where
  "sample_variance rs =
     (let mean = sum_list rs / real (length rs)
      in (\<Sum>r\<leftarrow>rs. (r - mean)\<^sup>2) / real (length rs - 1))"

definition scott :: "real \<Rightarrow> kde" where
  "scott err rs =
     (let n = real (length rs);
          variance = sample_variance rs + err;
          h2 = variance * (n powr (- 1 / 5))\<^sup>2
      in if variance \<le> 0 then Inl (LinAlgError ''singular matrix'')
         else Inr (\<lambda>x. (\<Sum>r\<leftarrow>rs. float_exp (- (x - r)\<^sup>2 / (2 * h2))) / (n * sqrt (2 * pi * h2))))"

definition scott_kde :: kde where
  "scott_kde = scott 0"

text \<open>
  Two datasets with three categorical columns: \<^verbatim>\<open>city\<close> and \<^verbatim>\<open>town\<close> have the same
  distribution before and after, \<^verbatim>\<open>shop\<close> has all its mass on one category before and
  on another after.
\<close>

definition shops_prior :: typed_frame where
  "shops_prior = [(''city'', Object, [Str ''a'', Str ''b'']),
                  (''shop'', Object, [Str ''u'', Str ''u'']),
                  (''town'', Object, [Str ''a'', Str ''b''])]"

definition shops_post :: typed_frame where
  "shops_post = [(''city'', Object, [Str ''b'', Str ''a'']),
                 (''shop'', Object, [Str ''v'', Str ''v'']),
                 (''town'', Object, [Str ''b'', Str ''a''])]"

definition det_cats :: detector where
  "det_cats = \<lparr> categorical_columns = [''city'', ''shop'', ''town''], numeric_columns = [],
     df_prior = untyped shops_prior, df_post = untyped shops_post \<rparr>"

definition drift_cats :: drift_report where
  "drift_cats = \<lparr> categorical = Ranked [(''shop'', Score (sqrt (ln 2))), (''city'', Score 0),
                                          (''town'', Score 0)],
                   numerical = Dict [] \<rparr>"







text \<open>
  Stand-ins for the libraries, for the examples of the efficacy pipeline.  The product
  of two floats is exact (the examples split where rounding makes no difference); the
  state of the global generator is a counter, and a shuffle rotates the rows by it; the
  encoder
  replaces every category by the mean target of the rows it was fitted on; a fitted
  model is the mean target of its training rows, a search without a seed advances the
  generator, and every metric is a constant.
\<close>

definition numeric_values :: "series \<Rightarrow> real list option" where
  "numeric_values ys =
     those (map (\<lambda>c. case cell_float conv0 c of Some (Num r) \<Rightarrow> Some r | _ \<Rightarrow> None) ys)"

definition average :: "real list \<Rightarrow> real" where
  "average xs = sum_list xs / real (length xs)"

definition lib0 :: "(nat, real, real) extern" where
  "lib0 = \<lparr> np_conv = conv0,
     float_times = (\<lambda>a b. a * b),
     random_permutation = (\<lambda>g n. (rotate g [0..<n], Suc g)),
     encoder_fit = (\<lambda>seed cols X y. case numeric_values y of
                      None \<Rightarrow> Inl (ValueError ''could not convert string to float'')
                    | Some ys \<Rightarrow> Inr (average ys)),
     encoder_transform = (\<lambda>tf X y. Inr (map (\<lambda>(c, xs). (c, map (\<lambda>x. Num tf) xs)) X)),
     search_fit = (\<lambda>est cfg g X y. case numeric_values y of
                      None \<Rightarrow> Inl (ValueError ''could not convert string to float'')
                    | Some ys \<Rightarrow> Inr (average ys,
                                      case random_state cfg of None \<Rightarrow> Suc g | Some seed \<Rightarrow> g)),
     predict = (\<lambda>m X. Inr (replicate (nrows X) m)),
     mean_absolute_error = (\<lambda>y p. Inr 0),
     r2_score = (\<lambda>y p. Inr 0),
     precision_score = (\<lambda>y p. Inr 1),
     recall_score = (\<lambda>y p. Inr 1),
     accuracy_score = (\<lambda>y p. Inr 1),
     f1_score = (\<lambda>y p. Inr 1),
     roc_auc_score = (\<lambda>y p. Inr 1) \<rparr>"

text \<open>
  A regression dataset: \<^verbatim>\<open>city\<close> is categorical, \<^verbatim>\<open>y\<close> is numeric and \<^verbatim>\<open>flag\<close>
  is a column of neither role list.  The category \<^verbatim>\<open>c\<close> occurs in the post dataset
  only, and \<^verbatim>\<open>d\<close> in the external test data only.
\<close>

definition det_ml :: detector where
  "det_ml = \<lparr> categorical_columns = [''city''], numeric_columns = [''y''],
     df_prior = [(''city'', [Str ''a'', Str ''b'']), (''y'', [Num 1, Num 2]),
                 (''flag'', [Num 0, Num 1])],
     df_post = [(''city'', [Str ''a'', Str ''c'', Str ''b'']), (''y'', [Num 0, Num 1, Num 2]),
                (''flag'', [Num 1, Num 1, Num 0])] \<rparr>"

definition obj_ml :: "real ml_object" where
  "obj_ml = \<lparr> core = det_ml, prep = None, models = None, ml_report = None \<rparr>"

definition test_ml :: frame where
  "test_ml = [(''city'', [Str ''d'']), (''y'', [Num 1]), (''flag'', [Num 0])]"

definition args_ml :: efficacy_args where
  "args_ml = \<lparr> arg_target_column = ''y'', arg_test_data = None, arg_OHE_columns = None,
     arg_high_cardinality_columns = None, OHE_columns_cutoff = 5, arg_random_state = Some 0,
     arg_train_size = 7 / 10, arg_cv = 3, arg_n_iter = 5,
     arg_param_grid = [(''n_estimators'', [100, 200]), (''max_samples'', [6 / 10, 8 / 10, 1]),
                       (''max_depth'', [3, 4, 5])] \<rparr>"

definition cfg_ml :: "frame option \<Rightarrow> settings" where
  "cfg_ml td = \<lparr> target_column = ''y'', train_size = 7 / 10, random_state = Some 0, cv = 3,
     n_iter = 5, param_grid = arg_param_grid args_ml,
     OHE_columns = [''city''], high_cardinality_columns = [], test_data = td \<rparr>"

text \<open>The same settings with \<^verbatim>\<open>city\<close> declared a high-cardinality column.\<close>

definition cfg_hc :: settings where
  "cfg_hc = (cfg_ml None) \<lparr> OHE_columns := [], high_cardinality_columns := [''city''] \<rparr>"

text \<open>A binary classification dataset, and a report left by an earlier call.\<close>

definition det_cls :: detector where
  "det_cls = \<lparr> categorical_columns = [''label''], numeric_columns = [''x''],
     df_prior = [(''x'', [Num 1, Num 2]), (''label'', [Str ''0'', Str ''1''])],
     df_post = [(''x'', [Num 2, Num 1, Num 0]), (''label'', [Str ''1'', Str ''0'', Str ''0''])] \<rparr>"

definition obj_cls :: "real ml_object" where
  "obj_cls = \<lparr> core = det_cls, prep = None, models = None, ml_report = None \<rparr>"

definition args_cls :: efficacy_args where
  "args_cls = args_ml \<lparr> arg_target_column := ''label'' \<rparr>"

definition args_flag :: efficacy_args where
  "args_flag = args_ml \<lparr> arg_target_column := ''flag'' \<rparr>"

definition old_report :: report where
  "old_report = [([''Prior''], [(''RMSE'', Num 1), (''MAE'', Num 1), (''R2'', Num 0)]),
                 ([''Post''], [(''RMSE'', Num 1), (''MAE'', Num 1), (''R2'', Num 0)])]"

definition cfg_cls :: settings where
  "cfg_cls = (cfg_ml None) \<lparr> target_column := ''label'', OHE_columns := [''label''] \<rparr>"

definition cfg_flag :: settings where
  "cfg_flag = (cfg_ml None) \<lparr> target_column := ''flag'' \<rparr>"

text \<open>The matrices that the data preparation computes on the examples.\<close>

definition prepared_ext :: prepared where
  "prepared_ext = \<lparr>
     X_train_prior = [(''flag'', [Num 0, Num 1]), (''city_a'', [Num 1, Num 0]),
                      (''city_b'', [Num 0, Num 1]), (''city_c'', [Num 0, Num 0]),
                      (''city_d'', [Num 0, Num 0])],
     y_train_prior = [Num 1, Num 2],
     X_test_prior = [(''flag'', [Num 0]), (''city_a'', [Num 0]), (''city_b'', [Num 0]),
                     (''city_c'', [Num 0]), (''city_d'', [Num 1])],
     y_test = [Num 1],
     X_train_post = [(''flag'', [Num 1, Num 1, Num 0]), (''city_a'', [Num 1, Num 0, Num 0]),
                     (''city_b'', [Num 0, Num 0, Num 1]), (''city_c'', [Num 0, Num 1, Num 0]),
                     (''city_d'', [Num 0, Num 0, Num 0])],
     y_train_post = [Num 0, Num 1, Num 2],
     X_test_post = [(''flag'', [Num 0]), (''city_a'', [Num 0]), (''city_b'', [Num 0]),
                    (''city_c'', [Num 0]), (''city_d'', [Num 1])] \<rparr>"

definition prepared_run0 :: prepared where
  "prepared_run0 = \<lparr>
     X_train_prior = [(''flag'', [Num 0, Num 1]), (''city_a'', [Num 1, Num 0]),
                      (''city_b'', [Num 0, Num 1]), (''city_c'', [Num 0, Num 0])],
     y_train_prior = [Num 1, Num 2],
     X_test_prior = [(''flag'', [Num 0]), (''city_a'', [Num 0]), (''city_b'', [Num 1]),
                     (''city_c'', [Num 0])],
     y_test = [Num 2],
     X_train_post = [(''flag'', [Num 1, Num 1]), (''city_a'', [Num 1, Num 0]),
                     (''city_b'', [Num 0, Num 0]), (''city_c'', [Num 0, Num 1])],
     y_train_post = [Num 0, Num 1],
     X_test_post = [(''flag'', [Num 0]), (''city_a'', [Num 0]), (''city_b'', [Num 1]),
                    (''city_c'', [Num 0])] \<rparr>"

definition prepared_run1 :: prepared where
  "prepared_run1 = \<lparr>
     X_train_prior = [(''flag'', [Num 0, Num 1]), (''city_a'', [Num 1, Num 0]),
                      (''city_b'', [Num 0, Num 1]), (''city_c'', [Num 0, Num 0])],
     y_train_prior = [Num 1, Num 2],
     X_test_prior = [(''flag'', [Num 1]), (''city_a'', [Num 1]), (''city_b'', [Num 0]),
                     (''city_c'', [Num 0])],
     y_test = [Num 0],
     X_train_post = [(''flag'', [Num 1, Num 0]), (''city_a'', [Num 0, Num 0]),
                     (''city_b'', [Num 0, Num 1]), (''city_c'', [Num 1, Num 0])],
     y_train_post = [Num 1, Num 2],
     X_test_post = [(''flag'', [Num 1]), (''city_a'', [Num 1]), (''city_b'', [Num 0]),
                    (''city_c'', [Num 0])] \<rparr>"

definition prepared_flag :: prepared where
  "prepared_flag = \<lparr>
     X_train_prior = [(''y'', [Num 1, Num 2]), (''city_a'', [Num 1, Num 0]),
                      (''city_b'', [Num 0, Num 1]), (''city_c'', [Num 0, Num 0])],
     y_train_prior = [Num 0, Num 1],
     X_test_prior = [(''y'', [Num 2]), (''city_a'', [Num 0]), (''city_b'', [Num 1]),
                     (''city_c'', [Num 0])],
     y_test = [Num 0],
     X_train_post = [(''y'', [Num 0, Num 1]), (''city_a'', [Num 1, Num 0]),
                     (''city_b'', [Num 0, Num 0]), (''city_c'', [Num 0, Num 1])],
     y_train_post = [Num 1, Num 1],
     X_test_post = [(''y'', [Num 2]), (''city_a'', [Num 0]), (''city_b'', [Num 1]),
                    (''city_c'', [Num 0])] \<rparr>"

definition prepared_hc :: prepared where
  "prepared_hc = \<lparr>
     X_train_prior = [(''city'', [Num (3 / 2), Num (3 / 2)]), (''flag'', [Num 0, Num 1])],
     y_train_prior = [Num 1, Num 2],
     X_test_prior = [(''city'', [Num (3 / 2)]), (''flag'', [Num 0])],
     y_test = [Num 1],
     X_train_post = [(''city'', [Num 1, Num 1, Num 1]), (''flag'', [Num 1, Num 1, Num 0])],
     y_train_post = [Num 0, Num 1, Num 2],
     X_test_post = [(''city'', [Num 1]), (''flag'', [Num 0])] \<rparr>"

definition prepared_hc_post :: prepared where
  "prepared_hc_post = prepared_hc \<lparr>
     X_train_post := [(''city'', [Num 2, Num 2, Num 2]), (''flag'', [Num 1, Num 1, Num 0])],
     y_train_post := [Num 2, Num 2, Num 2],
     X_test_post := [(''city'', [Num 2]), (''flag'', [Num 0])] \<rparr>"

definition prepared_hc_prior :: prepared where
  "prepared_hc_prior = prepared_hc \<lparr>
     X_train_prior := [(''city'', [Num 0, Num 0]), (''flag'', [Num 0, Num 1])],
     y_train_prior := [Num 0, Num 0],
     X_test_prior := [(''city'', [Num 0]), (''flag'', [Num 0])] \<rparr>"

definition prepared_cls :: prepared where
  "prepared_cls = \<lparr>
     X_train_prior = [(''x'', [Num 1, Num 2])], y_train_prior = [Num 0, Num 1],
     X_test_prior = [(''x'', [Num 0])], y_test = [Num 0],
     X_train_post = [(''x'', [Num 2, Num 1])], y_train_post = [Num 1, Num 0],
     X_test_post = [(''x'', [Num 0])] \<rparr>"

section \<open>Properties of the constructor\<close>

lemma raises_Inl [simp]: "raises cls (Inl e) = (exn_class e = cls)"
  by (simp add: raises_def)

lemma raises_Inr [simp]: "raises cls (Inr v) = False"
  by (simp add: raises_def)

lemma returns_Inl [simp]: "returns (Inl e) = False"
  by (simp add: returns_def)

lemma returns_Inr [simp]: "returns (Inr v) = True"
  by (simp add: returns_def)

lemma andthen_Inl [simp]: "andthen (Inl e) k = Inl e"
  by (simp add: andthen_def)

lemma andthen_Inr [simp]: "andthen (Inr v) k = k v"
  by (simp add: andthen_def)

lemma andthen_eq_Inr:
  "andthen r k = Inr y \<longleftrightarrow> (\<exists>v. r = Inr v \<and> k v = Inr y)"
  by (cases r) simp_all

lemma length_dtypes [simp]: "length (dtypes df) = length df"
  by (simp add: dtypes_def)

lemma length_columns [simp]: "length (columns df) = length df"
  by (simp add: columns_def)

text \<open>
  C6, as the specification states it, fails on the code: two dataframes whose column
  names differ make the constructor raise AssertionError, not SchemaMismatchError
  (a class the module does not have).
\<close>

theorem init_not_schema_mismatch_error:
  "\<not> raises ''SchemaMismatchError'' (init conv0 frame_a frame_b None None)"
  by (simp add: init_def frame_a_def frame_b_def columns_def)

text \<open>
  C6, amended: when the column names or the column dtypes of the two dataframes differ,
  the constructor produces no detector.  It raises AssertionError when the dataframes
  have the same number of columns, and the ValueError of the index comparison when they
  have not.
\<close>

theorem init_rejects_schema_mismatch:
  assumes "columns prior \<noteq> columns post \<or> dtypes prior \<noteq> dtypes post"
  shows "\<not> returns (init K prior post cats nums) \<and>
         (if length prior = length post
          then raises ''AssertionError'' (init K prior post cats nums)
          else raises ''ValueError'' (init K prior post cats nums))"
  using assms by (auto simp: init_def)

theorem init_rejects_schema_mismatch_witness:
  "columns frame_a \<noteq> columns frame_b \<and>
   \<not> returns (init conv0 frame_a frame_b None None) \<and>
   raises ''AssertionError'' (init conv0 frame_a frame_b None None) \<and>
   columns frame_a \<noteq> columns frame_c \<and>
   \<not> returns (init conv0 frame_a frame_c None None) \<and>
   raises ''ValueError'' (init conv0 frame_a frame_c None None)"
proof -
  have ab: "columns frame_a \<noteq> columns frame_b"
    by (simp add: frame_a_def frame_b_def columns_def)
  have ac: "columns frame_a \<noteq> columns frame_c"
    by (simp add: frame_a_def frame_c_def columns_def)
  have lab: "length frame_a = length frame_b" by (simp add: frame_a_def frame_b_def)
  have lac: "length frame_a \<noteq> length frame_c" by (simp add: frame_a_def frame_c_def)
  show ?thesis
    using init_rejects_schema_mismatch [OF disjI1 [OF ab], of conv0 None None]
          init_rejects_schema_mismatch [OF disjI1 [OF ac], of conv0 None None] ab ac lab lac
    by simp
qed

section \<open>Properties of the Jensen-Shannon distance\<close>

lemma map2_avg_commute:
  "map2 (\<lambda>x y. (x + y) / 2) (a::real list) b = map2 (\<lambda>x y. (x + y) / 2) b a"
proof (induction a arbitrary: b)
  case Nil then show ?case by simp
next
  case (Cons x a) then show ?case by (cases b) (simp_all add: add.commute)
qed

lemma jensenshannon_commute: "jensenshannon p q = jensenshannon q p"
  unfolding jensenshannon_def Let_def
  by (simp add: map2_avg_commute [of "map (\<lambda>x. x / sum_list p) p"] add.commute)










lemma map2_same: "map2 f xs xs = map (\<lambda>x. f x x) xs"
  by (induction xs) simp_all

lemma rel_entr_self: "rel_entr x x = 0"
  by (simp add: rel_entr_def)

lemma jensenshannon_self: "jensenshannon p p = 0"
  by (simp add: jensenshannon_def Let_def map2_same o_def rel_entr_self)

section \<open>Properties of the column distances\<close>



lemma categories_commute: "categories a b = categories b a"
  by (simp add: categories_def Un_commute)




lemma length_np_linspace [simp]: "length (np_linspace a b n) = n"
  by (simp add: np_linspace_def)




text \<open>What the distance of a numeric column is, once both estimates are fitted.\<close>

lemma numeric_distance_eq_Inr:
  "numeric_distance kde_fit s col = Inr d \<longleftrightarrow>
   (\<exists>a b f g. getitem (df_prior s) col = Inr a \<and> getitem (df_post s) col = Inr b \<and>
      gaussian_kde kde_fit a = Inr f \<and> gaussian_kde kde_fit b = Inr g \<and>
      d = (let r = np_linspace (min (series_min a) (series_min b))
                     (max (series_max a) (series_max b)) STEPS
           in if sum_list (map f r) = 0 \<or> sum_list (map g r) = 0 then NotANumber
              else Score (jensenshannon (map (\<lambda>v. v / sum_list (map f r)) (map f r))
                                        (map (\<lambda>v. v / sum_list (map g r)) (map g r)))))"
  by (auto simp: numeric_distance_def andthen_eq_Inr Let_def)


lemma categorical_distance_swapped:
  assumes "categorical_distance s col = Inr d"
  shows "categorical_distance (swapped s) col = Inr d"
proof -
  from assms obtain a b where a: "getitem (df_prior s) col = Inr a"
    and b: "getitem (df_post s) col = Inr b"
    and ok: "col \<noteq> ''_source''" "observed a \<noteq> []" "observed b \<noteq> []"
    and d: "d = Score (jensenshannon (probabilities (categories a b) a)
                                     (probabilities (categories a b) b))"
    by (auto simp: categorical_distance_def andthen_eq_Inr Let_def split: if_splits)
  show ?thesis
    using a b ok
    by (simp add: categorical_distance_def swapped_def Let_def d
        categories_commute [of b a] jensenshannon_commute [of "probabilities (categories a b) b"])
qed

lemma numeric_distance_swapped:
  assumes "numeric_distance kde_fit s col = Inr d"
  shows "numeric_distance kde_fit (swapped s) col = Inr d"
proof -
  from assms obtain a b f g where a: "getitem (df_prior s) col = Inr a"
    and b: "getitem (df_post s) col = Inr b"
    and f: "gaussian_kde kde_fit a = Inr f" and g: "gaussian_kde kde_fit b = Inr g"
    and d: "d = (let r = np_linspace (min (series_min a) (series_min b))
                           (max (series_max a) (series_max b)) STEPS
                 in if sum_list (map f r) = 0 \<or> sum_list (map g r) = 0 then NotANumber
                    else Score (jensenshannon (map (\<lambda>v. v / sum_list (map f r)) (map f r))
                                              (map (\<lambda>v. v / sum_list (map g r)) (map g r))))"
    unfolding numeric_distance_eq_Inr by blast
  have m: "min (series_min b) (series_min a) = min (series_min a) (series_min b)"
    and M: "max (series_max b) (series_max a) = max (series_max a) (series_max b)"
    by (simp_all add: min.commute max.commute)
  have sw: "getitem (df_prior (swapped s)) col = Inr b" "getitem (df_post (swapped s)) col = Inr a"
    using a b by (simp_all add: swapped_def)
  show ?thesis
    unfolding numeric_distance_eq_Inr
    by (intro exI [of _ b] exI [of _ a] exI [of _ g] exI [of _ f])
       (auto simp: sw f g d m M Let_def jensenshannon_commute)
qed

section \<open>Properties of the loop and of the ranking\<close>




lemma drift_loop_distinct:
  "drift_loop f cols res = Inr res' \<Longrightarrow> distinct (map fst res) \<Longrightarrow> distinct (map fst res')"
proof (induction cols arbitrary: res)
  case Nil then show ?case by simp
next
  case (Cons col cols)
  then show ?case by (auto split: sum.splits intro: distinct_update)
qed

lemma set_first_occurrences [simp]: "set (first_occurrences xs) = set xs"
  by (induction xs) auto



lemma drift_loop_cong:
  "drift_loop f cols res = Inr r \<Longrightarrow> \<forall>c d. f c = Inr d \<longrightarrow> g c = Inr d \<Longrightarrow>
   drift_loop g cols res = Inr r"
  by (induction cols arbitrary: res) (auto split: sum.splits)




text \<open>The sort permutes its argument, whatever the comparison.\<close>

lemma run_while_append: "run_while c p ys = (run, rest) \<Longrightarrow> run @ rest = ys"
  by (induction ys arbitrary: p run rest) (auto split: if_splits prod.splits)

lemma set_count_run: "count_run lt xs = (run, rest) \<Longrightarrow> set run \<union> set rest = set xs"
proof (induction lt xs rule: count_run.induct)
  case (1 lt) then show ?case by simp
next
  case (2 lt x) then show ?case by auto
next
  case (3 lt x y ys)
  then show ?case
    by (auto split: if_splits prod.splits dest!: run_while_append)
qed

lemma set_insert_at: "set (take l xs @ p # drop l xs) = insert p (set xs)"
proof -
  have "set (take l xs) \<union> set (drop l xs) = set xs" by (metis append_take_drop_id set_append)
  then show ?thesis by auto
qed

lemma set_fold_insert:
  assumes "\<And>p xs. set (f p xs) = insert p (set xs)"
  shows "set (fold f rest run) = set run \<union> set rest"
  by (induction rest arbitrary: run) (simp_all add: assms)

lemma set_binarysort: "set (binarysort lt run rest) = set run \<union> set rest"
  unfolding binarysort_def by (rule set_fold_insert) (simp only: Let_def set_insert_at)

lemma set_list_sort: "set (list_sort lt xs) = set xs"
proof -
  obtain run rest where r: "count_run lt xs = (run, rest)" by (cases "count_run lt xs")
  show ?thesis using set_count_run [OF r] by (simp add: list_sort_def r set_binarysort)
qed

lemma set_sorted_reverse [simp]: "set (sorted_reverse l) = set l"
  by (simp add: sorted_reverse_def set_list_sort)

lemma calculate_drift_eq_Inr:
  "calculate_drift kde_fit s = Inr rep \<longleftrightarrow>
   (\<exists>cat_res num_res.
      drift_loop (categorical_distance s) (categorical_columns s) [] = Inr cat_res \<and>
      drift_loop (numeric_distance kde_fit s) (numeric_columns s) [] = Inr num_res \<and>
      rep = \<lparr> categorical = rank cat_res, numerical = rank num_res \<rparr>)"
  by (auto simp: calculate_drift_def andthen_eq_Inr)

lemma calculate_drift_swapped:
  assumes "calculate_drift kde_fit s = Inr rep"
  shows "calculate_drift kde_fit (swapped s) = Inr rep"
proof -
  from assms obtain cat_res num_res where
    c: "drift_loop (categorical_distance s) (categorical_columns s) [] = Inr cat_res" and
    n: "drift_loop (numeric_distance kde_fit s) (numeric_columns s) [] = Inr num_res" and
    rep: "rep = \<lparr> categorical = rank cat_res, numerical = rank num_res \<rparr>"
    by (auto simp: calculate_drift_eq_Inr)
  have c': "drift_loop (categorical_distance (swapped s)) (categorical_columns s) [] = Inr cat_res"
    by (rule drift_loop_cong [OF c]) (auto intro: categorical_distance_swapped)
  have n': "drift_loop (numeric_distance kde_fit (swapped s)) (numeric_columns s) [] = Inr num_res"
    by (rule drift_loop_cong [OF n]) (auto intro: numeric_distance_swapped)
  show ?thesis using c' n' by (simp add: calculate_drift_eq_Inr rep swapped_def)
qed

section \<open>The example datasets\<close>







lemma categories_a_b:
  "categories [Str ''a'', Str ''b''] [Str ''b'', Str ''a''] = [(True, 0, ''a''), (True, 0, ''b'')]"
  unfolding categories_def
  by (subst sorted_list_of_set_sort_remdups) (simp add: observed_def less_eq_prod_def less_prod_def)

lemma categories_u_v:
  "categories [Str ''u'', Str ''u''] [Str ''v'', Str ''v''] = [(True, 0, ''u''), (True, 0, ''v'')]"
  unfolding categories_def
  by (subst sorted_list_of_set_sort_remdups) (simp add: observed_def less_eq_prod_def less_prod_def)

lemma jensenshannon_same: "jensenshannon [1/2, 1/2] [1/2, 1/2] = 0"
  by (rule jensenshannon_self)

lemma jensenshannon_disjoint: "jensenshannon [1, 0] [0, 1] = sqrt (ln 2)"
  by (simp add: jensenshannon_def rel_entr_def)

lemma distance_city: "categorical_distance det_cats ''city'' = Inr (Score 0)"
  by (simp add: categorical_distance_def det_cats_def shops_prior_def shops_post_def untyped_def
        getitem_def categories_a_b probabilities_def,
      simp add: observed_def jensenshannon_same)

lemma distance_shop: "categorical_distance det_cats ''shop'' = Inr (Score (sqrt (ln 2)))"
  by (simp add: categorical_distance_def det_cats_def shops_prior_def shops_post_def untyped_def
        getitem_def categories_u_v probabilities_def,
      simp add: observed_def jensenshannon_disjoint)

lemma distance_town: "categorical_distance det_cats ''town'' = Inr (Score 0)"
  by (simp add: categorical_distance_def det_cats_def shops_prior_def shops_post_def untyped_def
        getitem_def categories_a_b probabilities_def,
      simp add: observed_def jensenshannon_same)

lemma sqrt_ln_2_pos: "\<not> sqrt (ln 2) \<le> 0"
  by (simp add: not_le)

lemma bisect_stop: "\<not> l < r \<Longrightarrow> bisect lt pivot run l r = l"
  by (simp add: bisect.simps)

lemma bisect_step:
  "l < r \<Longrightarrow> bisect lt pivot run l r =
     (if lt pivot (run ! (l + (r - l) div 2)) then bisect lt pivot run l (l + (r - l) div 2)
      else bisect lt pivot run (l + (r - l) div 2 + 1) r)"
  by (subst bisect.simps) (simp add: Let_def)

lemmas sort_ops = sorted_reverse_def list_sort_def binarysort_def bisect_stop bisect_step Let_def

lemma sorted_reverse_cats:
  "sorted_reverse [(''city'', Score 0), (''shop'', Score (sqrt (ln 2))), (''town'', Score 0)]
   = [(''shop'', Score (sqrt (ln 2))), (''city'', Score 0), (''town'', Score 0)]"
  by (simp add: sort_ops sqrt_ln_2_pos)

text \<open>
  With a NaN among the scores the sorted list is not in descending order: every
  comparison with NaN is false, and the binary search places the other scores by it.
\<close>

lemma sorted_reverse_nan:
  "sorted_reverse [(''a'', Score (1/10)), (''b'', Score (1/2)), (''c'', NotANumber), (''d'', Score (7/10))]
   = [(''b'', Score (1/2)), (''a'', Score (1/10)), (''c'', NotANumber), (''d'', Score (7/10))]"
  by (simp add: sort_ops)

text \<open>
  The report on the example: \<^verbatim>\<open>shop\<close> comes first with the largest distance, and the
  tie of \<^verbatim>\<open>city\<close> and \<^verbatim>\<open>town\<close> keeps the order of the column list.
\<close>

lemma calculate_drift_det_cats: "calculate_drift kde_fit det_cats = Inr drift_cats"
proof -
  have c: "categorical_columns det_cats = [''city'', ''shop'', ''town'']"
    and n: "numeric_columns det_cats = []"
    by (simp_all add: det_cats_def)
  show ?thesis
    by (simp add: calculate_drift_def c n distance_city distance_shop distance_town rank_def
        sorted_reverse_cats drift_cats_def)
qed

lemma init_shops: "init conv0 shops_prior shops_post None None = Inr det_cats"
  by (simp add: init_def shops_prior_def shops_post_def columns_def dtypes_def det_cats_def
      astype_str_cols_def astype_float_cols_def missing_label_def untyped_def num_types_def)

lemma entries_rank [simp]: "entries (rank res) = (if res = [] then [] else sorted_reverse res)"
  by (simp add: rank_def)

lemma sorted_reverse_eq_Nil [simp]: "sorted_reverse res = [] \<longleftrightarrow> res = []"
  by (metis set_sorted_reverse set_empty)









lemma sorted_reverse_single [simp]: "sorted_reverse [x] = [x]"
  by (simp add: sort_ops)












section \<open>The claims about the drift report\<close>

text \<open>
  C7 does not hold of the code.  The docstring of \<^verbatim>\<open>calculate_drift\<close> (lines 131 to
  134) promises a sorted list of tuples for each role, as the claim does, and a role with
  at least one column gets one.  But the result of a role starts as the dict \<^verbatim>\<open>{}\<close>,
  and line 190 (192 for the other role) replaces it by the sorted list only when it has
  an entry.  The example has no numeric column, and its numeric side is the empty dict,
  not the empty list.
\<close>

theorem calculate_drift_empty_role_is_dict:
  "(case calculate_drift scott_kde det_cats of
      Inl e \<Rightarrow> False
    | Inr rep \<Rightarrow> numeric_columns det_cats = [] \<and> numerical rep = Dict [] \<and>
                 numerical rep \<noteq> Ranked [])"
proof -
  have n: "numeric_columns det_cats = []" by (simp add: det_cats_def)
  show ?thesis by (simp add: calculate_drift_det_cats drift_cats_def n)
qed







lemma same_schema_filter:
  assumes "columns a = columns b" "dtypes a = dtypes b"
  shows "map fst (filter (\<lambda>(c, t, xs). P t) a) = map fst (filter (\<lambda>(c, t, xs). P t) (b::typed_frame))"
proof -
  have len: "length a = length b" using assms(1) by (metis length_columns)
  from len assms show ?thesis
    by (induction a b rule: list_induct2) (auto simp: columns_def dtypes_def)
qed

lemma astype_str_cols_schema:
  assumes "astype_str_cols K cs a = Inr a1" "astype_str_cols K cs b = Inr b1"
    and "columns a = columns b" "dtypes a = dtypes b"
  shows "columns a1 = columns b1 \<and> dtypes a1 = dtypes b1"
proof -
  have len: "length a = length b" using assms(3) by (metis length_columns)
  have a1: "a1 = map (\<lambda>(c, t, xs). if c \<in> set cs then (c, Object, map (cell_str K) xs) else (c, t, xs)) a"
    and b1: "b1 = map (\<lambda>(c, t, xs). if c \<in> set cs then (c, Object, map (cell_str K) xs) else (c, t, xs)) b"
    using assms(1,2) by (auto simp: astype_str_cols_def split: option.splits if_splits)
  from len assms(3,4) show ?thesis unfolding a1 b1
    by (induction a b rule: list_induct2) (auto simp: columns_def dtypes_def)
qed

lemma init_swapped:
  assumes "init K prior post cats nums = Inr s"
  shows "init K post prior cats nums = Inr (swapped s)"
proof -
  define cs where "cs = (case cats of None \<Rightarrow> map fst (filter (\<lambda>(c, t, xs). t = Object) prior) | Some cs \<Rightarrow> cs)"
  from assms have cols: "columns prior = columns post" and dts: "dtypes prior = dtypes post"
    by (auto simp: init_def split: if_splits)
  from assms cols dts obtain prior1 post1 where
    p1: "astype_str_cols K cs prior = Inr prior1" and q1: "astype_str_cols K cs post = Inr post1"
    by (auto simp: init_def Let_def andthen_eq_Inr cs_def)
  define ns where "ns = (case nums of None \<Rightarrow> map fst (filter (\<lambda>(c, t, xs). t \<in> set num_types) prior1) | Some ns \<Rightarrow> ns)"
  from assms cols dts p1 q1 obtain prior2 post2 where
    p2: "astype_float_cols K ns prior1 = Inr prior2" and q2: "astype_float_cols K ns post1 = Inr post2"
    and s: "s = \<lparr> categorical_columns = cs, numeric_columns = ns,
                   df_prior = untyped prior2, df_post = untyped post2 \<rparr>"
    by (auto simp: init_def Let_def andthen_eq_Inr cs_def ns_def)
  have cs': "(case cats of None \<Rightarrow> map fst (filter (\<lambda>(c, t, xs). t = Object) post) | Some cs \<Rightarrow> cs) = cs"
    unfolding cs_def using same_schema_filter [OF cols dts, of "\<lambda>t. t = Object"]
    by (simp split: option.splits)
  have sch1: "columns prior1 = columns post1 \<and> dtypes prior1 = dtypes post1"
    using astype_str_cols_schema [OF p1 q1 cols dts] .
  have ns': "(case nums of None \<Rightarrow> map fst (filter (\<lambda>(c, t, xs). t \<in> set num_types) post1) | Some ns \<Rightarrow> ns) = ns"
    unfolding ns_def using same_schema_filter [of prior1 post1 "\<lambda>t. t \<in> set num_types"] sch1
    by (simp split: option.splits)
  show ?thesis
    using cols dts by (simp add: init_def Let_def cs' ns' p1 q1 p2 q2 s swapped_def)
qed

text \<open>
  C10: the detector constructed from the two dataframes in the other order reports the
  same distances, for every categorical and every numeric column: whenever the
  construction and \<^verbatim>\<open>calculate_drift\<close> succeed for one order they succeed for the
  other, with the same report.
\<close>

theorem calculate_drift_symmetric:
  assumes "init K prior post cats nums = Inr s" and "calculate_drift kde_fit s = Inr rep"
  shows "\<exists>s'. init K post prior cats nums = Inr s' \<and> calculate_drift kde_fit s' = Inr rep"
  using init_swapped [OF assms(1)] calculate_drift_swapped [OF assms(2)] by blast

theorem calculate_drift_symmetric_witness:
  "init conv0 shops_prior shops_post None None = Inr det_cats \<and>
   calculate_drift scott_kde det_cats = Inr drift_cats \<and>
   init conv0 shops_post shops_prior None None = Inr (swapped det_cats) \<and>
   calculate_drift scott_kde (swapped det_cats) = Inr drift_cats"
proof -
  have sw: "init conv0 shops_post shops_prior None None = Inr (swapped det_cats)"
    by (simp add: init_def shops_prior_def shops_post_def columns_def dtypes_def det_cats_def
        astype_str_cols_def astype_float_cols_def missing_label_def untyped_def num_types_def
        swapped_def)
  show ?thesis
    using calculate_drift_symmetric [OF init_shops calculate_drift_det_cats [of scott_kde]] sw
    by (simp add: init_shops calculate_drift_det_cats)
qed

section \<open>Properties of the data preparation\<close>

subsection \<open>Column names\<close>

lemma columns_map_cells [simp]: "columns (map (\<lambda>(c, xs). (c, f c xs)) df) = columns df"
  by (induction df) (auto simp: columns_def)

lemma columns_filter: "columns (filter (\<lambda>(c, xs). P c) df) = filter P (columns df)"
  by (induction df) (auto simp: columns_def)

lemma drop_column_columns:
  "drop_column df c = Inr d \<Longrightarrow> columns d = filter (\<lambda>c'. c' \<noteq> c) (columns df)"
  by (auto simp: drop_column_def columns_filter split: if_splits)

lemma rows_from_columns:
  "rows_from df l = Inr r \<Longrightarrow> columns r = filter (\<lambda>c. c \<noteq> ''source'') (columns df)"
  by (auto simp: rows_from_def split: option.splits dest!: drop_column_columns)

lemma cast_float_columns: "cast_float K p df = Inr d \<Longrightarrow> columns d = columns df"
proof (induction df arbitrary: d)
  case Nil then show ?case by simp
next
  case (Cons a df)
  obtain c xs where a: "a = (c, xs)" by (cases a)
  from Cons.prems show ?case unfolding a
    by (auto simp: columns_def split: if_splits sum.splits dest!: Cons.IH)
qed

lemma features_columns:
  "features K t df = Inr X \<Longrightarrow> columns X = filter (\<lambda>c. c \<noteq> t) (columns df)"
  by (auto simp: features_def frame_float_def andthen_eq_Inr
      dest!: drop_column_columns cast_float_columns)

lemma missing_label_None: "missing_label df cs = None \<longleftrightarrow> set cs \<subseteq> set (columns df)"
  by (auto simp: missing_label_def find_None_iff)

lemma select_columns_subset: "select_columns df cs = Inr x \<Longrightarrow> set cs \<subseteq> set (columns df)"
  by (auto simp: select_columns_def missing_label_None split: option.splits)

lemma columns_setitem:
  "c \<in> set (columns df) \<Longrightarrow> columns (setitem df c xs) = columns df"
  by (simp add: setitem_def columns_def update_keys)

lemma columns_fold_setitem:
  "set (map fst kvs) \<subseteq> set (columns df) \<Longrightarrow>
   columns (fold (\<lambda>(c, (c', xs)) df'. setitem df' c xs) kvs df) = columns df"
proof (induction kvs arbitrary: df)
  case Nil then show ?case by simp
next
  case (Cons kv kvs)
  obtain c c' xs where kv: "kv = (c, (c', xs))" by (cases kv) auto
  have c: "c \<in> set (columns df)" using Cons.prems by (simp add: kv)
  have "columns (fold (\<lambda>(c, (c', xs)) df'. setitem df' c xs) kvs (setitem df c xs))
        = columns (setitem df c xs)"
    using Cons.prems by (intro Cons.IH) (simp add: columns_setitem [OF c] kv)
  then show ?case by (simp add: kv columns_setitem [OF c])
qed

lemma setitem_columns_columns:
  assumes "setitem_columns df cs v = Inr df'" "set cs \<subseteq> set (columns df)"
  shows "columns df' = columns df"
proof -
  from assms(1) have len: "length v = length cs"
    and df': "df' = fold (\<lambda>(c, (c', xs)) df'. setitem df' c xs) (zip cs v) df"
    by (auto simp: setitem_columns_def split: if_splits)
  have "set (map fst (zip cs v)) \<subseteq> set (columns df)" using assms(2) len by simp
  then show ?thesis unfolding df' by (rule columns_fold_setitem)
qed

lemma encode_lineage_columns:
  assumes "encode_lineage L cfg hc train test = Inr (train', test')"
  shows "columns train' = columns train \<and> columns test' = columns test"
proof -
  from assms obtain a b c d where
    a: "select_columns train hc = Inr a" and b: "setitem_columns train hc b = Inr train'"
    and c: "select_columns test hc = Inr c" and d: "setitem_columns test hc d = Inr test'"
    by (auto simp: encode_lineage_def andthen_eq_Inr)
  show ?thesis
    using setitem_columns_columns [OF b select_columns_subset [OF a]]
          setitem_columns_columns [OF d select_columns_subset [OF c]] by simp
qed

lemma encode_partitions_aligned:
  assumes "encode_partitions L cfg a b c = Inr p"
  shows "aligned p"
proof -
  from assms obtain df tp1 te tpo1 tp tep tpo teo where
    s1: "rows_from df ''Train Prior'' = Inr tp1" and s2: "rows_from df ''Test'' = Inr te"
    and s3: "rows_from df ''Train Post'' = Inr tpo1"
    and e1: "encode_lineage L cfg (filter (\<lambda>col. col \<noteq> target_column cfg) (high_cardinality_columns cfg)) tp1 te = Inr (tp, tep)"
    and e2: "encode_lineage L cfg (filter (\<lambda>col. col \<noteq> target_column cfg) (high_cardinality_columns cfg)) tpo1 te = Inr (tpo, teo)"
    and f1: "features (np_conv L) (target_column cfg) tp = Inr (X_train_prior p)"
    and f2: "features (np_conv L) (target_column cfg) tep = Inr (X_test_prior p)"
    and f3: "features (np_conv L) (target_column cfg) tpo = Inr (X_train_post p)"
    and f4: "features (np_conv L) (target_column cfg) teo = Inr (X_test_post p)"
    by (auto simp: encode_partitions_def Let_def andthen_eq_Inr)
  have "columns tp = columns tep" "columns tpo = columns tp" "columns teo = columns tp"
    using encode_lineage_columns [OF e1] encode_lineage_columns [OF e2]
      rows_from_columns [OF s1] rows_from_columns [OF s2] rows_from_columns [OF s3]
    by simp_all
  then show ?thesis
    using features_columns [OF f1] features_columns [OF f2] features_columns [OF f3]
      features_columns [OF f4]
    by (simp add: aligned_def)
qed

subsection \<open>Independence of the rows of another tag\<close>

lemma nrows_tag [simp]: "nrows (tag l f) = nrows f"
proof (cases f)
  case Nil then show ?thesis by (simp add: tag_def setitem_def nrows_def)
next
  case (Cons a f')
  obtain c xs where a: "a = (c, xs)" by (cases a)
  show ?thesis unfolding Cons a by (simp add: tag_def setitem_def nrows_def)
qed

lemma column_tag_source [simp]:
  "column_or_nan (tag l f) ''source'' = replicate (nrows f) (Str l)"
  by (simp add: column_or_nan_def tag_def setitem_def update_conv')

lemma column_tag_other [simp]:
  "c \<noteq> ''source'' \<Longrightarrow> column_or_nan (tag l f) c = column_or_nan f c"
  using nrows_tag [of l f]
  by (cases "map_of f c") (simp_all add: column_or_nan_def tag_def setitem_def update_conv' del: nrows_tag)

lemma columns_with_target [simp]: "columns (with_target t ys f) = columns f"
  by (induction f) (auto simp: with_target_def columns_def)

lemma columns_tag_with_target [simp]:
  "columns (tag l (with_target t ys f)) = columns (tag l f)"
  using columns_with_target [of t ys f]
  by (simp add: tag_def setitem_def columns_def update_keys)

lemma nrows_with_target: "length ys = nrows f \<Longrightarrow> nrows (with_target t ys f) = nrows f"
  by (cases f) (auto simp: with_target_def nrows_def)

lemma map_of_with_target:
  "map_of (with_target t ys f) c = (if c = t then map_option (\<lambda>xs. ys) (map_of f c) else map_of f c)"
  by (induction f) (auto simp: with_target_def)

lemma column_with_target_other:
  "length ys = nrows f \<Longrightarrow> c \<noteq> t \<Longrightarrow> column_or_nan (with_target t ys f) c = column_or_nan f c"
  by (cases "map_of f c") (simp_all add: column_or_nan_def map_of_with_target nrows_with_target)

lemma length_column_or_nan:
  assumes "frame_ok f"
  shows "length (column_or_nan f c) = nrows f"
proof (cases "map_of f c")
  case None then show ?thesis by (simp add: column_or_nan_def)
next
  case (Some xs)
  then have "(c, xs) \<in> set f" by (rule map_of_SomeD)
  then have "length xs = nrows f" using assms by (auto simp: frame_ok_def list_all_iff)
  then show ?thesis using Some by (simp add: column_or_nan_def)
qed

lemma length_column_with_target:
  assumes "frame_ok f" "length ys = nrows f"
  shows "length (column_or_nan (with_target t ys f) c) = nrows f"
proof (cases "c = t")
  case True
  then show ?thesis using assms(2)
    by (cases "map_of f t") (simp_all add: column_or_nan_def map_of_with_target nrows_with_target)
next
  case False
  then show ?thesis
    using column_with_target_other [OF assms(2) False] length_column_or_nan [OF assms(1)] by simp
qed

lemma filter_rows_append:
  "length m1 = length x1 \<Longrightarrow> filter_rows (m1 @ m2) (x1 @ x2) = filter_rows m1 x1 @ filter_rows m2 x2"
  by (simp add: filter_rows_def)

lemma filter_rows_all_False:
  "\<forall>b\<in>set m. \<not> b \<Longrightarrow> filter_rows m xs = []"
  by (auto simp: filter_rows_def filter_empty_conv dest: set_zip_leftD)

lemma filter_rows_replicate_False [simp]: "filter_rows (replicate n False) xs = []"
  by (rule filter_rows_all_False) simp

lemma map_of_fun_frame:
  "map_of (map (\<lambda>c. (c, g c)) names) c = (if c \<in> set names then Some (g c) else None)"
  by (induction names) auto

lemma column_fun_frame:
  "c \<in> set names \<Longrightarrow> column_or_nan (map (\<lambda>c. (c, g c)) names) c = g c"
  by (simp add: column_or_nan_def map_of_fun_frame)

lemma columns_fun_frame [simp]: "columns (map (\<lambda>c. (c, g c)) names) = names"
  by (simp add: columns_def o_def)

lemma get_dummies_fun_frame:
  "get_dummies K (map (\<lambda>c. (c, g c)) names) ohe = Inr dd \<Longrightarrow>
   set ohe \<subseteq> set names \<and>
   dd = map (\<lambda>c. (c, g c)) (filter (\<lambda>c. c \<notin> set ohe) names) @
        concat (map (\<lambda>c. dummies K c (g c)) ohe)"
proof -
  assume a: "get_dummies K (map (\<lambda>c. (c, g c)) names) ohe = Inr dd"
  then have sub: "set ohe \<subseteq> set names"
    by (auto simp: get_dummies_def missing_label_None split: option.splits)
  have 1: "map (\<lambda>c. dummies K c (column_or_nan (map (\<lambda>c. (c, g c)) names) c)) ohe
         = map (\<lambda>c. dummies K c (g c)) ohe"
    using sub by (intro map_cong) (auto simp: column_fun_frame)
  have 2: "filter (\<lambda>(c, xs). c \<notin> set ohe) (map (\<lambda>c. (c, g c)) names)
         = map (\<lambda>c. (c, g c)) (filter (\<lambda>c. c \<notin> set ohe) names)"
    by (induction names) auto
  from a show ?thesis using sub
    by (auto simp: get_dummies_def 1 2 split: option.splits)
qed

lemma dummies_names: "(n, xs) \<in> set (dummies K c ys) \<Longrightarrow> CHR ''_'' \<in> set n"
  by (auto simp: dummies_def)

lemma map_of_dummies_source:
  "map_of (concat (map (\<lambda>c. dummies K c (g c)) ohe)) ''source'' = None"
proof -
  have "''source'' \<notin> fst ` set (concat (map (\<lambda>c. dummies K c (g c)) ohe))"
  proof
    assume "''source'' \<in> fst ` set (concat (map (\<lambda>c. dummies K c (g c)) ohe))"
    then obtain xs c where "(''source'', xs) \<in> set (dummies K c (g c))" by auto
    then have "CHR ''_'' \<in> set ''source''" by (rule dummies_names)
    then show False by simp
  qed
  then show ?thesis by (simp add: map_of_eq_None_iff)
qed

lemma rows_from_dummies_cong:
  assumes d: "get_dummies K (map (\<lambda>c. (c, g c)) names) ohe = Inr dd"
    and d': "get_dummies K (map (\<lambda>c. (c, g' c)) names) ohe = Inr dd'"
    and src: "g ''source'' = g' ''source''"
    and ohe: "\<forall>c\<in>set ohe. g c = g' c"
    and flt: "\<forall>c. filter_rows (map (\<lambda>v. v = Str l) (g ''source'')) (g c)
                 = filter_rows (map (\<lambda>v. v = Str l) (g ''source'')) (g' c)"
  shows "rows_from dd l = rows_from dd' l"
proof -
  define N where "N = filter (\<lambda>c. c \<notin> set ohe) names"
  define Dm where "Dm = concat (map (\<lambda>c. dummies K c (g c)) ohe)"
  have Dm': "concat (map (\<lambda>c. dummies K c (g' c)) ohe) = Dm"
    unfolding Dm_def using ohe by (auto intro!: arg_cong [where f = concat] map_cong)
  have dd: "dd = map (\<lambda>c. (c, g c)) N @ Dm"
    using get_dummies_fun_frame [OF d] by (simp add: N_def Dm_def)
  have dd': "dd' = map (\<lambda>c. (c, g' c)) N @ Dm"
    using get_dummies_fun_frame [OF d'] by (simp add: N_def Dm')
  have Dsrc: "map_of Dm ''source'' = None" unfolding Dm_def by (rule map_of_dummies_source)
  show ?thesis
  proof (cases "''source'' \<in> set N")
    case False
    then have "map_of dd ''source'' = None" "map_of dd' ''source'' = None"
      by (simp_all add: dd dd' map_add_def map_of_fun_frame Dsrc)
    then show ?thesis by (simp add: rows_from_def)
  next
    case True
    then have s: "map_of dd ''source'' = Some (g ''source'')"
      and s': "map_of dd' ''source'' = Some (g ''source'')"
      by (simp_all add: dd dd' map_add_def map_of_fun_frame src)
    define M where "M = map (\<lambda>v. v = Str l) (g ''source'')"
    have "map (\<lambda>(c, xs). (c, filter_rows M xs)) dd = map (\<lambda>(c, xs). (c, filter_rows M xs)) dd'"
      using flt by (simp add: dd dd' M_def)
    then show ?thesis by (simp add: rows_from_def s s' M_def)
  qed
qed

lemma length_tagged_column:
  "frame_ok f \<Longrightarrow> length (column_or_nan (tag l f) c) = nrows f"
  by (cases "c = ''source''") (simp_all add: length_column_or_nan)

lemma length_tagged_column_with_target:
  "frame_ok f \<Longrightarrow> length ys = nrows f \<Longrightarrow>
   length (column_or_nan (tag l (with_target t ys f)) c) = nrows f"
  by (cases "c = ''source''") (simp_all add: length_column_with_target nrows_with_target)

lemma tagged_column_with_target:
  "length ys = nrows f \<Longrightarrow> c \<noteq> t \<or> c = ''source'' \<Longrightarrow>
   column_or_nan (tag l (with_target t ys f)) c = column_or_nan (tag l f) c"
  by (cases "c = ''source''") (auto simp: nrows_with_target column_with_target_other)

lemma pd_concat_three:
  "pd_concat [a, b, c] =
     map (\<lambda>n. (n, column_or_nan a n @ column_or_nan b n @ column_or_nan c n))
       (first_occurrences (columns a @ columns b @ columns c))"
  by (simp add: pd_concat_def)

text \<open>
  The rows of a tag other than the tag of the last part do not depend on the target of
  the last part, and likewise for the first part.
\<close>

lemma split_ignores_last:
  assumes ok: "frame_ok a" "frame_ok b" and len: "length ys = nrows c"
    and l: "l \<noteq> l3" and t: "t \<notin> set ohe"
    and d: "get_dummies K (pd_concat [tag l1 a, tag l2 b, tag l3 c]) ohe = Inr dd"
    and d': "get_dummies K (pd_concat [tag l1 a, tag l2 b, tag l3 (with_target t ys c)]) ohe = Inr dd'"
  shows "rows_from dd' l = rows_from dd l"
proof -
  define names where "names = first_occurrences (columns (tag l1 a) @ columns (tag l2 b) @ columns (tag l3 c))"
  define g where "g = (\<lambda>n. column_or_nan (tag l1 a) n @ column_or_nan (tag l2 b) n @ column_or_nan (tag l3 c) n)"
  define g' where "g' = (\<lambda>n. column_or_nan (tag l1 a) n @ column_or_nan (tag l2 b) n
                              @ column_or_nan (tag l3 (with_target t ys c)) n)"
  have f: "pd_concat [tag l1 a, tag l2 b, tag l3 c] = map (\<lambda>n. (n, g n)) names"
    by (simp add: pd_concat_three names_def g_def)
  have f': "pd_concat [tag l1 a, tag l2 b, tag l3 (with_target t ys c)] = map (\<lambda>n. (n, g' n)) names"
    by (simp add: pd_concat_three names_def g'_def)
  have same: "\<And>n. n \<noteq> t \<or> n = ''source'' \<Longrightarrow> g' n = g n"
    by (simp add: g_def g'_def tagged_column_with_target [OF len])
  have src: "g' ''source'' = g ''source''" by (rule same) simp
  have ohe: "\<forall>n\<in>set ohe. g' n = g n" using t by (auto intro: same)
  have M: "map (\<lambda>v. v = Str l) (g' ''source'')
         = (replicate (nrows a) (l1 = l) @ replicate (nrows b) (l2 = l)) @ replicate (nrows c) False"
    using l by (simp add: src g_def)
  have flt: "\<forall>n. filter_rows (map (\<lambda>v. v = Str l) (g' ''source'')) (g' n)
               = filter_rows (map (\<lambda>v. v = Str l) (g' ''source'')) (g n)"
  proof
    fix n
    have len2: "length (replicate (nrows a) (l1 = l) @ replicate (nrows b) (l2 = l))
              = length (column_or_nan (tag l1 a) n @ column_or_nan (tag l2 b) n)"
      by (simp add: length_tagged_column ok)
    have "\<And>x. filter_rows (map (\<lambda>v. v = Str l) (g' ''source''))
              ((column_or_nan (tag l1 a) n @ column_or_nan (tag l2 b) n) @ x)
           = filter_rows (replicate (nrows a) (l1 = l) @ replicate (nrows b) (l2 = l))
              (column_or_nan (tag l1 a) n @ column_or_nan (tag l2 b) n)"
      unfolding M by (subst filter_rows_append [OF len2]) simp
    then show "filter_rows (map (\<lambda>v. v = Str l) (g' ''source'')) (g' n)
               = filter_rows (map (\<lambda>v. v = Str l) (g' ''source'')) (g n)"
      by (simp add: g_def g'_def)
  qed
  show ?thesis
    using d d' unfolding f f' by (rule rows_from_dummies_cong [OF _ _ src ohe flt, rotated])
qed

lemma split_ignores_first:
  assumes ok: "frame_ok a" and len: "length ys = nrows a"
    and l: "l \<noteq> l1" and t: "t \<notin> set ohe"
    and d: "get_dummies K (pd_concat [tag l1 a, tag l2 b, tag l3 c]) ohe = Inr dd"
    and d': "get_dummies K (pd_concat [tag l1 (with_target t ys a), tag l2 b, tag l3 c]) ohe = Inr dd'"
  shows "rows_from dd' l = rows_from dd l"
proof -
  define names where "names = first_occurrences (columns (tag l1 a) @ columns (tag l2 b) @ columns (tag l3 c))"
  define g where "g = (\<lambda>n. column_or_nan (tag l1 a) n @ column_or_nan (tag l2 b) n @ column_or_nan (tag l3 c) n)"
  define g' where "g' = (\<lambda>n. column_or_nan (tag l1 (with_target t ys a)) n @ column_or_nan (tag l2 b) n
                              @ column_or_nan (tag l3 c) n)"
  have f: "pd_concat [tag l1 a, tag l2 b, tag l3 c] = map (\<lambda>n. (n, g n)) names"
    by (simp add: pd_concat_three names_def g_def)
  have f': "pd_concat [tag l1 (with_target t ys a), tag l2 b, tag l3 c] = map (\<lambda>n. (n, g' n)) names"
    by (simp add: pd_concat_three names_def g'_def)
  have same: "\<And>n. n \<noteq> t \<or> n = ''source'' \<Longrightarrow> g' n = g n"
    by (simp add: g_def g'_def tagged_column_with_target [OF len])
  have src: "g' ''source'' = g ''source''" by (rule same) simp
  have ohe: "\<forall>n\<in>set ohe. g' n = g n" using t by (auto intro: same)
  have M: "map (\<lambda>v. v = Str l) (g' ''source'')
         = replicate (nrows a) False @ (replicate (nrows b) (l2 = l) @ replicate (nrows c) (l3 = l))"
    using l by (simp add: src g_def)
  have flt: "\<forall>n. filter_rows (map (\<lambda>v. v = Str l) (g' ''source'')) (g' n)
               = filter_rows (map (\<lambda>v. v = Str l) (g' ''source'')) (g n)"
  proof
    fix n
    have "\<And>x r. length x = nrows a \<Longrightarrow>
            filter_rows (map (\<lambda>v. v = Str l) (g' ''source'')) (x @ r)
          = filter_rows (replicate (nrows b) (l2 = l) @ replicate (nrows c) (l3 = l)) r"
      unfolding M by (subst filter_rows_append) simp_all
    then show "filter_rows (map (\<lambda>v. v = Str l) (g' ''source'')) (g' n)
               = filter_rows (map (\<lambda>v. v = Str l) (g' ''source'')) (g n)"
      by (simp add: g_def g'_def length_tagged_column [OF ok]
          length_tagged_column_with_target [OF ok len])
  qed
  show ?thesis
    using d d' unfolding f f' by (rule rows_from_dummies_cong [OF _ _ src ohe flt, rotated])
qed

lemma encode_partitions_eq_Inr:
  "encode_partitions L cfg a b c = Inr p \<longleftrightarrow>
   (\<exists>dd tp1 te tpo1 tp tep tpo teo.
      get_dummies (np_conv L)
        (pd_concat [tag ''Train Prior'' a, tag ''Test'' b, tag ''Train Post'' c])
        (filter (\<lambda>col. col \<noteq> target_column cfg) (OHE_columns cfg)) = Inr dd \<and>
      rows_from dd ''Train Prior'' = Inr tp1 \<and>
      rows_from dd ''Test'' = Inr te \<and>
      rows_from dd ''Train Post'' = Inr tpo1 \<and>
      encode_lineage L cfg (filter (\<lambda>col. col \<noteq> target_column cfg) (high_cardinality_columns cfg))
        tp1 te = Inr (tp, tep) \<and>
      encode_lineage L cfg (filter (\<lambda>col. col \<noteq> target_column cfg) (high_cardinality_columns cfg))
        tpo1 te = Inr (tpo, teo) \<and>
      features (np_conv L) (target_column cfg) tp = Inr (X_train_prior p) \<and>
      labels (np_conv L) (target_column cfg) tp = Inr (y_train_prior p) \<and>
      features (np_conv L) (target_column cfg) tep = Inr (X_test_prior p) \<and>
      labels (np_conv L) (target_column cfg) te = Inr (y_test p) \<and>
      features (np_conv L) (target_column cfg) tpo = Inr (X_train_post p) \<and>
      labels (np_conv L) (target_column cfg) tpo = Inr (y_train_post p) \<and>
      features (np_conv L) (target_column cfg) teo = Inr (X_test_post p))"
  by (auto simp: encode_partitions_def Let_def andthen_eq_Inr)

lemma prior_lineage_ignores_post_target:
  assumes ok: "frame_ok train_prior" "frame_ok test" and len: "length ys = nrows train_post"
    and r: "encode_partitions L cfg train_prior test train_post = Inr p"
    and r': "encode_partitions L cfg train_prior test
               (with_target (target_column cfg) ys train_post) = Inr p'"
  shows "X_train_prior p' = X_train_prior p \<and> X_test_prior p' = X_test_prior p"
proof -
  define ohe where "ohe = filter (\<lambda>col. col \<noteq> target_column cfg) (OHE_columns cfg)"
  define hc where "hc = filter (\<lambda>col. col \<noteq> target_column cfg) (high_cardinality_columns cfg)"
  have t: "target_column cfg \<notin> set ohe" by (simp add: ohe_def)
  from r obtain dd tp1 te tp tep where
    d: "get_dummies (np_conv L)
          (pd_concat [tag ''Train Prior'' train_prior, tag ''Test'' test, tag ''Train Post'' train_post])
          ohe = Inr dd"
    and s1: "rows_from dd ''Train Prior'' = Inr tp1" and s2: "rows_from dd ''Test'' = Inr te"
    and e: "encode_lineage L cfg hc tp1 te = Inr (tp, tep)"
    and f1: "features (np_conv L) (target_column cfg) tp = Inr (X_train_prior p)"
    and f2: "features (np_conv L) (target_column cfg) tep = Inr (X_test_prior p)"
    unfolding encode_partitions_eq_Inr ohe_def hc_def by blast
  from r' obtain dd' tp1' te' tp' tep' where
    d': "get_dummies (np_conv L)
          (pd_concat [tag ''Train Prior'' train_prior, tag ''Test'' test,
                      tag ''Train Post'' (with_target (target_column cfg) ys train_post)])
          ohe = Inr dd'"
    and s1': "rows_from dd' ''Train Prior'' = Inr tp1'" and s2': "rows_from dd' ''Test'' = Inr te'"
    and e': "encode_lineage L cfg hc tp1' te' = Inr (tp', tep')"
    and f1': "features (np_conv L) (target_column cfg) tp' = Inr (X_train_prior p')"
    and f2': "features (np_conv L) (target_column cfg) tep' = Inr (X_test_prior p')"
    unfolding encode_partitions_eq_Inr ohe_def hc_def by blast
  have "rows_from dd' ''Train Prior'' = rows_from dd ''Train Prior''"
    by (rule split_ignores_last [OF ok len _ t d d']) simp
  moreover have "rows_from dd' ''Test'' = rows_from dd ''Test''"
    by (rule split_ignores_last [OF ok len _ t d d']) simp
  ultimately have "tp1' = tp1" "te' = te" using s1 s1' s2 s2' by simp_all
  then have "tp' = tp" "tep' = tep" using e e' by simp_all
  then show ?thesis using f1 f1' f2 f2' by simp
qed

lemma post_lineage_ignores_prior_target:
  assumes ok: "frame_ok train_prior" and len: "length zs = nrows train_prior"
    and r: "encode_partitions L cfg train_prior test train_post = Inr p"
    and r': "encode_partitions L cfg (with_target (target_column cfg) zs train_prior) test
               train_post = Inr p'"
  shows "X_train_post p' = X_train_post p \<and> X_test_post p' = X_test_post p"
proof -
  define ohe where "ohe = filter (\<lambda>col. col \<noteq> target_column cfg) (OHE_columns cfg)"
  define hc where "hc = filter (\<lambda>col. col \<noteq> target_column cfg) (high_cardinality_columns cfg)"
  have t: "target_column cfg \<notin> set ohe" by (simp add: ohe_def)
  from r obtain dd te tpo1 tpo teo where
    d: "get_dummies (np_conv L)
          (pd_concat [tag ''Train Prior'' train_prior, tag ''Test'' test, tag ''Train Post'' train_post])
          ohe = Inr dd"
    and s2: "rows_from dd ''Test'' = Inr te" and s3: "rows_from dd ''Train Post'' = Inr tpo1"
    and e: "encode_lineage L cfg hc tpo1 te = Inr (tpo, teo)"
    and f1: "features (np_conv L) (target_column cfg) tpo = Inr (X_train_post p)"
    and f2: "features (np_conv L) (target_column cfg) teo = Inr (X_test_post p)"
    unfolding encode_partitions_eq_Inr ohe_def hc_def by blast
  from r' obtain dd' te' tpo1' tpo' teo' where
    d': "get_dummies (np_conv L)
          (pd_concat [tag ''Train Prior'' (with_target (target_column cfg) zs train_prior),
                      tag ''Test'' test, tag ''Train Post'' train_post])
          ohe = Inr dd'"
    and s2': "rows_from dd' ''Test'' = Inr te'" and s3': "rows_from dd' ''Train Post'' = Inr tpo1'"
    and e': "encode_lineage L cfg hc tpo1' te' = Inr (tpo', teo')"
    and f1': "features (np_conv L) (target_column cfg) tpo' = Inr (X_train_post p')"
    and f2': "features (np_conv L) (target_column cfg) teo' = Inr (X_test_post p')"
    unfolding encode_partitions_eq_Inr ohe_def hc_def by blast
  have "rows_from dd' ''Test'' = rows_from dd ''Test''"
    by (rule split_ignores_first [OF ok len _ t d d']) simp
  moreover have "rows_from dd' ''Train Post'' = rows_from dd ''Train Post''"
    by (rule split_ignores_first [OF ok len _ t d d']) simp
  ultimately have "te' = te" "tpo1' = tpo1" using s2 s2' s3 s3' by simp_all
  then have "tpo' = tpo" "teo' = teo" using e e' by simp_all
  then show ?thesis using f1 f1' f2 f2' by simp
qed

subsection \<open>The comparison and the classification report\<close>

lemma eval_classifier_fails: "eval_classifier L cfg self \<noteq> Inr self'"
  by (auto simp: eval_classifier_def andthen_eq_Inr load_local_def Let_def)

lemma eval_classifier_unbound_local:
  assumes "fitted self = Inr ((model_prior, model_post), p)"
    and "predict L model_prior (X_test_prior p) = Inr a"
    and "predict L model_post (X_test_post p) = Inr b"
  shows "eval_classifier L cfg self = Inl (UnboundLocalError ''y_test'')"
  using assms by (simp add: eval_classifier_def load_local_def Let_def)

lemma ml_data_prep_keeps:
  "ml_data_prep L cfg self g = (Inr self1, g1) \<Longrightarrow>
   core self1 = core self \<and> models self1 = models self \<and> ml_report self1 = ml_report self"
  by (auto simp: ml_data_prep_def split: sum.splits prod.splits)

lemma class_scores_length: "class_scores L t a b i = Inr r \<Longrightarrow> length r = 2"
  by (auto simp: class_scores_def andthen_eq_Inr split: if_splits)

lemma score_loop_length:
  "score_loop L t a b iters res = Inr r \<Longrightarrow> length r = length res + 2 * length iters"
proof (induction iters arbitrary: res)
  case Nil then show ?case by simp
next
  case (Cons i iters)
  then show ?case by (auto split: sum.splits dest!: class_scores_length)
qed

lemma score_classes_rows:
  assumes "one_hot_labels L pred_prior pred_post y_test0 = Inr (a, b, truth)"
    and "score_classes L pred_prior pred_post y_test0 = Inr res"
  shows "length res = (if length truth = 2 then 2 else 2 * length truth)"
proof -
  from assms have "score_loop L truth a b (if length truth = 2 then [1] else [0..<length truth]) [] = Inr res"
    by (simp add: score_classes_def Let_def split: if_splits)
  from score_loop_length [OF this] show ?thesis by (simp split: if_splits)
qed

subsection \<open>The examples\<close>

lemmas frame_ops = nrows_def setitem_def tag_def column_or_nan_def pd_concat_def levels_def
  dummies_def get_dummies_def filter_rows_def drop_column_def rows_from_def select_columns_def
  setitem_columns_def frame_float_def take_rows_def py_int_def slice_bound_def iloc_to_def
  iloc_from_def columns_def missing_label_def getitem_def features_def labels_def
  less_eq_prod_def less_prod_def Let_def

lemmas lib_ops = lib0_def conv0_def numeric_values_def average_def

lemma settings_ml: "make_settings det_ml args_ml td = cfg_ml td"
  by (simp add: make_settings_def det_ml_def args_ml_def default_columns_def nunique_def cfg_ml_def)

lemma settings_flag: "make_settings det_ml args_flag None = cfg_flag"
  by (simp add: make_settings_def det_ml_def args_flag_def args_ml_def default_columns_def
      nunique_def cfg_ml_def cfg_flag_def)

lemma settings_cls: "make_settings det_cls args_cls None = cfg_cls"
  by (simp add: make_settings_def det_cls_def args_cls_def args_ml_def default_columns_def
      nunique_def cfg_ml_def cfg_cls_def)

lemma encode_ext:
  "encode_partitions lib0 (cfg_ml td) (df_prior det_ml) test_ml (df_post det_ml) = Inr prepared_ext"
  by (simp add: encode_partitions_def encode_lineage_def cfg_ml_def det_ml_def test_ml_def
      prepared_ext_def frame_ops lib_ops)

lemma prep_ext:
  "ml_data_prep lib0 (cfg_ml (Some test_ml)) obj_ml 0 = (Inr (obj_ml \<lparr> prep := Some prepared_ext \<rparr>), 0)"
proof -
  have "partitions lib0 (cfg_ml (Some test_ml)) det_ml 0
        = Inr (df_prior det_ml, test_ml, df_post det_ml, 0)"
    by (simp add: partitions_def cfg_ml_def)
  then show ?thesis by (simp add: ml_data_prep_def obj_ml_def encode_ext)
qed

lemma partitions_run0:
  "partitions lib0 (cfg_ml None) det_ml 0 =
     Inr (df_prior det_ml,
          [(''city'', [Str ''b'']), (''y'', [Num 2]), (''flag'', [Num 0])],
          [(''city'', [Str ''a'', Str ''c'']), (''y'', [Num 0, Num 1]), (''flag'', [Num 1, Num 1])],
          1)"
  by (simp add: partitions_def lib0_def cfg_ml_def det_ml_def take_rows_def nrows_def py_int_def
      iloc_from_def iloc_to_def slice_bound_def)

lemma partitions_run1:
  "partitions lib0 (cfg_ml None) det_ml 1 =
     Inr (df_prior det_ml,
          [(''city'', [Str ''a'']), (''y'', [Num 0]), (''flag'', [Num 1])],
          [(''city'', [Str ''c'', Str ''b'']), (''y'', [Num 1, Num 2]), (''flag'', [Num 1, Num 0])],
          2)"
  by (simp add: partitions_def lib0_def cfg_ml_def det_ml_def take_rows_def nrows_def py_int_def
      iloc_from_def iloc_to_def slice_bound_def)

lemma encode_run0:
  "encode_partitions lib0 (cfg_ml None) (df_prior det_ml)
     [(''city'', [Str ''b'']), (''y'', [Num 2]), (''flag'', [Num 0])]
     [(''city'', [Str ''a'', Str ''c'']), (''y'', [Num 0, Num 1]), (''flag'', [Num 1, Num 1])]
   = Inr prepared_run0"
  by (simp add: encode_partitions_def encode_lineage_def cfg_ml_def det_ml_def
      prepared_run0_def frame_ops lib_ops)

lemma encode_run1:
  "encode_partitions lib0 (cfg_ml None) (df_prior det_ml)
     [(''city'', [Str ''a'']), (''y'', [Num 0]), (''flag'', [Num 1])]
     [(''city'', [Str ''c'', Str ''b'']), (''y'', [Num 1, Num 2]), (''flag'', [Num 1, Num 0])]
   = Inr prepared_run1"
  by (simp add: encode_partitions_def encode_lineage_def cfg_ml_def det_ml_def
      prepared_run1_def frame_ops lib_ops)

lemma partitions_flag:
  "partitions lib0 cfg_flag det_ml 0 = partitions lib0 (cfg_ml None) det_ml 0"
  by (simp add: partitions_def cfg_flag_def cfg_ml_def)

lemma encode_flag:
  "encode_partitions lib0 cfg_flag (df_prior det_ml)
     [(''city'', [Str ''b'']), (''y'', [Num 2]), (''flag'', [Num 0])]
     [(''city'', [Str ''a'', Str ''c'']), (''y'', [Num 0, Num 1]), (''flag'', [Num 1, Num 1])]
   = Inr prepared_flag"
  by (simp add: encode_partitions_def encode_lineage_def cfg_flag_def cfg_ml_def det_ml_def
      prepared_flag_def frame_ops lib_ops)

lemma prep_flag:
  "core self = det_ml \<Longrightarrow>
   ml_data_prep lib0 cfg_flag self 0 = (Inr (self \<lparr> prep := Some prepared_flag \<rparr>), 1)"
  by (simp add: ml_data_prep_def partitions_flag partitions_run0 encode_flag)

lemma encode_hc:
  "encode_partitions lib0 cfg_hc (df_prior det_ml) test_ml (df_post det_ml) = Inr prepared_hc"
  by (simp add: encode_partitions_def encode_lineage_def cfg_hc_def cfg_ml_def det_ml_def
      test_ml_def prepared_hc_def frame_ops lib_ops)

lemma encode_hc_post:
  "encode_partitions lib0 cfg_hc (df_prior det_ml) test_ml
     (with_target ''y'' [Num 2, Num 2, Num 2] (df_post det_ml)) = Inr prepared_hc_post"
  by (simp add: encode_partitions_def encode_lineage_def cfg_hc_def cfg_ml_def det_ml_def
      test_ml_def prepared_hc_post_def prepared_hc_def with_target_def frame_ops lib_ops)

lemma encode_hc_prior:
  "encode_partitions lib0 cfg_hc (with_target ''y'' [Num 0, Num 0] (df_prior det_ml)) test_ml
     (df_post det_ml) = Inr prepared_hc_prior"
  by (simp add: encode_partitions_def encode_lineage_def cfg_hc_def cfg_ml_def det_ml_def
      test_ml_def prepared_hc_prior_def prepared_hc_def with_target_def frame_ops lib_ops)

lemma partitions_cls:
  "partitions lib0 cfg_cls det_cls 0 =
     Inr (df_prior det_cls,
          [(''x'', [Num 0]), (''label'', [Str ''0''])],
          [(''x'', [Num 2, Num 1]), (''label'', [Str ''1'', Str ''0''])], 1)"
  by (simp add: partitions_def lib0_def cfg_cls_def cfg_ml_def det_cls_def take_rows_def nrows_def
      py_int_def iloc_from_def iloc_to_def slice_bound_def)

lemma encode_cls:
  "encode_partitions lib0 cfg_cls (df_prior det_cls)
     [(''x'', [Num 0]), (''label'', [Str ''0''])]
     [(''x'', [Num 2, Num 1]), (''label'', [Str ''1'', Str ''0''])] = Inr prepared_cls"
  by (simp add: encode_partitions_def encode_lineage_def cfg_cls_def cfg_ml_def det_cls_def
      prepared_cls_def frame_ops lib_ops)

lemma prep_cls:
  "ml_data_prep lib0 cfg_cls obj_cls 0 = (Inr (obj_cls \<lparr> prep := Some prepared_cls \<rparr>), 1)"
  by (simp add: ml_data_prep_def obj_cls_def partitions_cls encode_cls)

lemma build_cls:
  "build_classifier lib0 cfg_cls (obj_cls \<lparr> prep := Some prepared_cls \<rparr>) g =
     (Inr (obj_cls \<lparr> prep := Some prepared_cls, models := Some (1 / 2, 1 / 2) \<rparr>), g)"
  by (simp add: build_classifier_def build_model_def obj_cls_def prepared_cls_def cfg_cls_def
      cfg_ml_def lib_ops)

lemma eval_cls:
  "eval_classifier lib0 cfg_cls (obj_cls \<lparr> prep := Some prepared_cls, models := Some (1 / 2, 1 / 2) \<rparr>)
     = Inl (UnboundLocalError ''y_test'')"
  by (rule eval_classifier_unbound_local [where model_prior = "1 / 2" and model_post = "1 / 2"
        and p = prepared_cls])
     (simp_all add: fitted_def obj_cls_def lib0_def)

lemma compare_cls:
  "compare_ml_efficacy lib0 obj_cls 0 args_cls =
     (Inl (UnboundLocalError ''y_test''),
      obj_cls \<lparr> prep := Some prepared_cls, models := Some (1 / 2, 1 / 2) \<rparr>, 1)"
proof -
  have c: "core obj_cls = det_cls" by (simp add: obj_cls_def)
  have t: "arg_target_column args_cls = ''label''" "arg_test_data args_cls = None"
    by (simp_all add: args_cls_def args_ml_def)
  have m: "''label'' \<in> set (columns (df_prior det_cls))" "''label'' \<in> set (categorical_columns det_cls)"
    by (simp_all add: det_cls_def columns_def)
  show ?thesis
    by (simp add: compare_ml_efficacy_def c t m cast_test_data_def settings_cls prep_cls build_cls
        eval_cls)
qed

section \<open>The claims about the efficacy pipeline\<close>

text \<open>
  C4: whenever the data preparation completes, with or without external test data and
  for any encoding lists, the four feature matrices \<^verbatim>\<open>X_train_prior\<close>,
  \<^verbatim>\<open>X_test_prior\<close>, \<^verbatim>\<open>X_train_post\<close> and \<^verbatim>\<open>X_test_post\<close> have the same column names
  in the same order, also when a category occurs in one partition only.
\<close>

theorem ml_data_prep_aligned:
  assumes "ml_data_prep L cfg self g = (Inr self', g')"
  shows "\<exists>p. prep self' = Some p \<and> aligned p"
  using assms
  by (auto simp: ml_data_prep_def split: sum.splits prod.splits dest: encode_partitions_aligned)

theorem ml_data_prep_aligned_witness:
  "ml_data_prep lib0 (cfg_ml (Some test_ml)) obj_ml 0
     = (Inr (obj_ml \<lparr> prep := Some prepared_ext \<rparr>), 0) \<and>
   aligned prepared_ext \<and>
   columns (X_test_post prepared_ext) = [''flag'', ''city_a'', ''city_b'', ''city_c'', ''city_d'']"
proof -
  have "aligned prepared_ext" using ml_data_prep_aligned [OF prep_ext] by simp
  moreover have "columns (X_test_post prepared_ext)
      = [''flag'', ''city_a'', ''city_b'', ''city_c'', ''city_d'']"
    by (simp add: prepared_ext_def columns_def)
  ultimately show ?thesis using prep_ext by simp
qed

text \<open>
  C5: the encoder of a lineage is fitted on the training rows of that lineage only.  For
  two runs on rectangular partitions that both complete and differ only in the target
  values of the post training rows, the prior training and test features are the same;
  and for two runs that differ only in the target values of the prior training rows, the
  post training and test features are the same.
\<close>

theorem encode_partitions_lineages_separate:
  assumes "frame_ok train_prior" "frame_ok test"
    and "length ys = nrows train_post" "length zs = nrows train_prior"
    and "encode_partitions L cfg train_prior test train_post = Inr p"
  shows "(\<forall>p'. encode_partitions L cfg train_prior test
                 (with_target (target_column cfg) ys train_post) = Inr p' \<longrightarrow>
               X_train_prior p' = X_train_prior p \<and> X_test_prior p' = X_test_prior p) \<and>
         (\<forall>p'. encode_partitions L cfg (with_target (target_column cfg) zs train_prior) test
                 train_post = Inr p' \<longrightarrow>
               X_train_post p' = X_train_post p \<and> X_test_post p' = X_test_post p)"
  using assms prior_lineage_ignores_post_target post_lineage_ignores_prior_target by blast

theorem encode_partitions_lineages_separate_witness:
  "frame_ok (df_prior det_ml) \<and> frame_ok test_ml \<and>
   encode_partitions lib0 cfg_hc (df_prior det_ml) test_ml (df_post det_ml) = Inr prepared_hc \<and>
   encode_partitions lib0 cfg_hc (df_prior det_ml) test_ml
     (with_target (target_column cfg_hc) [Num 2, Num 2, Num 2] (df_post det_ml))
     = Inr prepared_hc_post \<and>
   X_train_prior prepared_hc_post = X_train_prior prepared_hc \<and>
   X_test_prior prepared_hc_post = X_test_prior prepared_hc \<and>
   X_test_post prepared_hc_post \<noteq> X_test_post prepared_hc \<and>
   encode_partitions lib0 cfg_hc
     (with_target (target_column cfg_hc) [Num 0, Num 0] (df_prior det_ml)) test_ml (df_post det_ml)
     = Inr prepared_hc_prior \<and>
   X_train_post prepared_hc_prior = X_train_post prepared_hc \<and>
   X_test_post prepared_hc_prior = X_test_post prepared_hc \<and>
   X_test_prior prepared_hc_prior \<noteq> X_test_prior prepared_hc"
proof -
  have t: "target_column cfg_hc = ''y''" by (simp add: cfg_hc_def cfg_ml_def)
  have ok: "frame_ok (df_prior det_ml)" "frame_ok test_ml"
    by (simp_all add: frame_ok_def nrows_def det_ml_def test_ml_def)
  have len: "length [Num 2, Num 2, Num 2] = nrows (df_post det_ml)"
    "length [Num 0, Num (0::real)] = nrows (df_prior det_ml)"
    by (simp_all add: nrows_def det_ml_def)
  have post: "encode_partitions lib0 cfg_hc (df_prior det_ml) test_ml
      (with_target (target_column cfg_hc) [Num 2, Num 2, Num 2] (df_post det_ml)) = Inr prepared_hc_post"
    unfolding t by (rule encode_hc_post)
  have prior: "encode_partitions lib0 cfg_hc
      (with_target (target_column cfg_hc) [Num 0, Num 0] (df_prior det_ml)) test_ml (df_post det_ml)
      = Inr prepared_hc_prior"
    unfolding t by (rule encode_hc_prior)
  have same: "X_train_prior prepared_hc_post = X_train_prior prepared_hc \<and>
      X_test_prior prepared_hc_post = X_test_prior prepared_hc \<and>
      X_train_post prepared_hc_prior = X_train_post prepared_hc \<and>
      X_test_post prepared_hc_prior = X_test_post prepared_hc"
    using encode_partitions_lineages_separate [OF ok len encode_hc] post prior by blast
  have differ: "X_test_post prepared_hc_post \<noteq> X_test_post prepared_hc"
    "X_test_prior prepared_hc_prior \<noteq> X_test_prior prepared_hc"
    by (simp_all add: prepared_hc_post_def prepared_hc_prior_def prepared_hc_def)
  show ?thesis using ok encode_hc post prior same differ by blast
qed

text \<open>
  C9: when the target column exists in the dataframes but is in neither of the two role
  lists, \<^verbatim>\<open>compare_ml_efficacy\<close> fits no model and raises no error about the role.
  Once the data preparation has completed it returns the report that an earlier call
  stored, and fails with AttributeError when there is none; the stored models and the
  stored report are left as they were.
\<close>

theorem compare_ml_efficacy_unclassified_target:
  assumes "arg_target_column a \<in> set (columns (df_prior (core self)))"
    and "arg_target_column a \<notin> set (categorical_columns (core self))"
    and "arg_target_column a \<notin> set (numeric_columns (core self))"
    and "cast_test_data (np_conv L) (core self) (arg_test_data a) = Inr td"
    and "ml_data_prep L (make_settings (core self) a td) self g = (Inr self1, g1)"
  shows "compare_ml_efficacy L self g a =
           ((case ml_report self of
               None \<Rightarrow> Inl (AttributeError ''ml_report'')
             | Some r \<Rightarrow> Inr r), self1, g1) \<and>
         models self1 = models self \<and> ml_report self1 = ml_report self"
  using assms ml_data_prep_keeps [OF assms(5)]
  by (simp add: compare_ml_efficacy_def Let_def stored_report_def)

theorem compare_ml_efficacy_unclassified_target_witness:
  "compare_ml_efficacy lib0 obj_ml 0 args_flag =
     (Inl (AttributeError ''ml_report''), obj_ml \<lparr> prep := Some prepared_flag \<rparr>, 1) \<and>
   compare_ml_efficacy lib0 (obj_ml \<lparr> ml_report := Some old_report \<rparr>) 0 args_flag =
     (Inr old_report, obj_ml \<lparr> ml_report := Some old_report, prep := Some prepared_flag \<rparr>, 1)"
proof -
  have a: "arg_target_column args_flag = ''flag''" "arg_test_data args_flag = None"
    by (simp_all add: args_flag_def args_ml_def)
  have roles: "''flag'' \<in> set (columns (df_prior det_ml))"
    "''flag'' \<notin> set (categorical_columns det_ml)" "''flag'' \<notin> set (numeric_columns det_ml)"
    by (simp_all add: det_ml_def columns_def)
  have first: "compare_ml_efficacy lib0 obj_ml 0 args_flag =
      (Inl (AttributeError ''ml_report''), obj_ml \<lparr> prep := Some prepared_flag \<rparr>, 1)"
    using compare_ml_efficacy_unclassified_target [of args_flag obj_ml lib0 None 0
        "obj_ml \<lparr> prep := Some prepared_flag \<rparr>" 1]
    by (simp add: a roles obj_ml_def cast_test_data_def settings_flag prep_flag)
  have later: "compare_ml_efficacy lib0 (obj_ml \<lparr> ml_report := Some old_report \<rparr>) 0 args_flag =
      (Inr old_report, obj_ml \<lparr> ml_report := Some old_report, prep := Some prepared_flag \<rparr>, 1)"
    using compare_ml_efficacy_unclassified_target [of args_flag
        "obj_ml \<lparr> ml_report := Some old_report \<rparr>" lib0 None 0
        "obj_ml \<lparr> ml_report := Some old_report, prep := Some prepared_flag \<rparr>" 1]
    by (simp add: a roles obj_ml_def cast_test_data_def settings_flag prep_flag)
  show ?thesis using first later by simp
qed

text \<open>
  C1 concerns the report of a classification run: two rows for the class at position
  \<open>1\<close> when the labels have two classes, two rows for each of \<open>k\<close> classes otherwise.
  The loop of \<^verbatim>\<open>_eval_classifier\<close> is written to produce exactly that
  (\<open>score_classes_rows\<close> above), but no run reaches it: line 736 reads the local
  variable \<^verbatim>\<open>y_test\<close> before any assignment, so \<^verbatim>\<open>_eval_classifier\<close> raises
  UnboundLocalError and \<^verbatim>\<open>compare_ml_efficacy\<close> returns no report whenever the target
  is a categorical column.
\<close>

theorem compare_ml_efficacy_classification_raises:
  assumes "arg_target_column a \<in> set (categorical_columns (core self))"
  shows "\<not> returns (fst (compare_ml_efficacy L self g a))"
  using assms eval_classifier_fails [of L]
  by (auto simp: compare_ml_efficacy_def Let_def split: sum.splits prod.splits)

theorem compare_ml_efficacy_classification_raises_witness:
  "arg_target_column args_cls \<in> set (categorical_columns (core obj_cls)) \<and>
   fst (compare_ml_efficacy lib0 obj_cls 0 args_cls) = Inl (UnboundLocalError ''y_test'') \<and>
   \<not> returns (fst (compare_ml_efficacy lib0 obj_cls 0 args_cls))"
proof -
  have c: "arg_target_column args_cls \<in> set (categorical_columns (core obj_cls))"
    by (simp add: args_cls_def args_ml_def obj_cls_def det_cls_def)
  show ?thesis
    using compare_ml_efficacy_classification_raises [OF c, of lib0 0] c
    by (simp add: compare_cls)
qed

lemma partitions_ignore_random_state:
  "partitions L (cfg \<lparr> random_state := seed \<rparr>) s g = partitions L cfg s g"
  by (simp add: partitions_def split: option.split prod.split)

text \<open>
  C2 states that two runs with the same \<^verbatim>\<open>random_state\<close> split the post dataset in
  the same way.  Line 550 calls \<^verbatim>\<open>shuffle(df_post)\<close> without the seed that every other
  random component of the pipeline receives, so the order of the rows comes from the
  global generator alone: the partition does not depend on \<^verbatim>\<open>random_state\<close>, and two
  runs with the same seed that start from different states of the generator (as a
  second call in the same process does) train and test on different rows.
\<close>

theorem ml_data_prep_shuffle_not_seeded:
  "random_state (cfg_ml None) = Some 0 \<and>
   ml_data_prep lib0 (cfg_ml None) obj_ml 0 = (Inr (obj_ml \<lparr> prep := Some prepared_run0 \<rparr>), 1) \<and>
   ml_data_prep lib0 (cfg_ml None) obj_ml 1 = (Inr (obj_ml \<lparr> prep := Some prepared_run1 \<rparr>), 2) \<and>
   y_train_post prepared_run0 = [Num 0, Num 1] \<and> y_train_post prepared_run1 = [Num 1, Num 2] \<and>
   y_test prepared_run0 = [Num 2] \<and> y_test prepared_run1 = [Num 0]"
proof -
  have "ml_data_prep lib0 (cfg_ml None) obj_ml 0 = (Inr (obj_ml \<lparr> prep := Some prepared_run0 \<rparr>), 1)"
    by (simp add: ml_data_prep_def obj_ml_def partitions_run0 encode_run0)
  moreover have "ml_data_prep lib0 (cfg_ml None) obj_ml 1
      = (Inr (obj_ml \<lparr> prep := Some prepared_run1 \<rparr>), 2)"
    using partitions_run1 by (simp add: ml_data_prep_def obj_ml_def encode_run1)
  ultimately show ?thesis by (simp add: cfg_ml_def prepared_run0_def prepared_run1_def)
qed

end
